theory Spec2Isabelle
  imports Main
begin

section \<open>Strings\<close>

text \<open>
  Python strings are modelled as \<^typ>\<open>string\<close>; a \<^typ>\<open>char\<close> stands for a code point
  below 256. The string methods the bot uses are written out on that range.
\<close>

definition isspace :: "char \<Rightarrow> bool" where
  \<comment> \<open>\<open>str.isspace\<close> on one character\<close>
  "isspace c = ((of_char c :: nat) \<in> set [9, 10, 11, 12, 13, 28, 29, 30, 31, 32, 133, 160])"

definition strip :: "string \<Rightarrow> string" where
  \<comment> \<open>\<open>s.strip()\<close>\<close>
  "strip s = rev (dropWhile isspace (rev (dropWhile isspace s)))"

definition remove_spaces :: "string \<Rightarrow> string" where
  \<comment> \<open>\<open>s.replace(" ", "")\<close>\<close>
  "remove_spaces s = filter (\<lambda>c. c \<noteq> CHR '' '') s"

definition lower_char :: "char \<Rightarrow> char" where
  "lower_char c =
     (let n = (of_char c :: nat)
      in if (65 \<le> n \<and> n \<le> 90) \<or> (192 \<le> n \<and> n \<le> 222 \<and> n \<noteq> 215)
         then char_of (n + 32) else c)"

definition lower :: "string \<Rightarrow> string" where
  \<comment> \<open>\<open>s.lower()\<close>\<close>
  "lower s = map lower_char s"

fun split_on :: "char \<Rightarrow> string \<Rightarrow> string list" where
  \<comment> \<open>\<open>s.split(d)\<close> for a one-character separator\<close>
  "split_on d [] = [[]]"
| "split_on d (c # cs) =
     (if c = d then [] # split_on d cs
      else (case split_on d cs of
              [] \<Rightarrow> [[c]]
            | p # ps \<Rightarrow> (c # p) # ps))"

definition truthy_str :: "string option \<Rightarrow> bool" where
  \<comment> \<open>truth value of an optional string: \<open>None\<close> and \<open>""\<close> are false\<close>
  "truthy_str x = (case x of None \<Rightarrow> False | Some s \<Rightarrow> s \<noteq> [])"

definition truthy_int :: "int option \<Rightarrow> bool" where
  \<comment> \<open>truth value of an optional integer: \<open>None\<close> and \<open>0\<close> are false\<close>
  "truthy_int x = (case x of None \<Rightarrow> False | Some n \<Rightarrow> n \<noteq> 0)"

section \<open>The activation store\<close>

text \<open>
  One entry of \<open>activations.json\<close>. The store is the list the file holds, in file
  order; \<open>load_json\<close> reads it and \<open>save_json\<close> rewrites it whole.
\<close>

record activation =
  a_email :: string
  a_mobile :: string
  a_app :: string
  a_status :: string
  a_reason :: string
  a_timestamp :: string
  a_submission_date :: string
  a_message_id :: "int option"

fun read_activations ::
  "activation list \<Rightarrow> string option \<Rightarrow> string option \<Rightarrow> string option \<Rightarrow> activation list"
where
  "read_activations [] email app mobile = []"
| "read_activations (act # acts) email app mobile =
     (if truthy_str email \<and> Some (a_email act) \<noteq> email
        then read_activations acts email app mobile
      else if truthy_str app \<and> Some (a_app act) \<noteq> app
        then read_activations acts email app mobile
      else if truthy_str mobile \<and> Some (a_mobile act) \<noteq> map_option remove_spaces mobile
        then read_activations acts email app mobile
      else act # read_activations acts email app mobile)"

definition is_duplicate :: "activation list \<Rightarrow> string \<Rightarrow> string \<Rightarrow> bool" where
  "is_duplicate store app mobile =
     (let activations = read_activations store None (Some app) None;
          mobile_clean = remove_spaces mobile
      in list_ex (\<lambda>act. a_mobile act = mobile_clean
                        \<and> a_status act \<in> set [''pending'', ''approved''])
           activations)"

definition write_activation ::
  "activation list \<Rightarrow> string \<Rightarrow> string \<Rightarrow> string \<Rightarrow> string \<Rightarrow> string \<Rightarrow> string \<Rightarrow> string
     \<Rightarrow> activation list"
where
  \<comment> \<open>\<open>ts\<close> and \<open>sd\<close> are the two readings of the clock; the call sites pass
      \<open>''pending''\<close> for both defaulted arguments\<close>
  "write_activation store email app mobile status reason ts sd =
     store @ [\<lparr>a_email = email, a_mobile = remove_spaces mobile, a_app = app,
               a_status = status, a_reason = reason, a_timestamp = ts,
               a_submission_date = sd, a_message_id = None\<rparr>]"

definition matches_key :: "string \<Rightarrow> string \<Rightarrow> string \<Rightarrow> activation \<Rightarrow> bool" where
  \<comment> \<open>the test the loops over the store share\<close>
  "matches_key email app mobile act =
     (a_email act = email \<and> a_app act = app \<and> a_mobile act = remove_spaces mobile)"

fun update_loop ::
  "string \<Rightarrow> string \<Rightarrow> string \<Rightarrow> string \<Rightarrow> string \<Rightarrow> string \<Rightarrow> activation list
     \<Rightarrow> bool \<times> activation list"
where
  \<comment> \<open>the \<open>for \<dots> break\<close> loop of \<open>update_activation\<close>\<close>
  "update_loop email app mobile status reason ts [] = (False, [])"
| "update_loop email app mobile status reason ts (act # acts) =
     (if matches_key email app mobile act
      then (True, act\<lparr>a_status := status, a_reason := reason, a_timestamp := ts\<rparr> # acts)
      else (case update_loop email app mobile status reason ts acts of
              (updated, acts') \<Rightarrow> (updated, act # acts')))"

definition update_activation ::
  "activation list \<Rightarrow> string \<Rightarrow> string \<Rightarrow> string \<Rightarrow> string \<Rightarrow> string \<Rightarrow> string
     \<Rightarrow> bool \<times> activation list"
where
  \<comment> \<open>returns \<open>updated\<close> and the contents of the file afterwards; the file is saved
      only when a record was updated\<close>
  "update_activation store email app mobile status reason ts =
     (case update_loop email app mobile status reason ts store of
        (updated, activations) \<Rightarrow>
          if updated then (True, activations) else (False, store))"


fun store_message_id ::
  "string \<Rightarrow> string \<Rightarrow> string \<Rightarrow> int \<Rightarrow> activation list \<Rightarrow> activation list"
where
  \<comment> \<open>the loop of \<open>process_activation_proof\<close> that records the review message on the
      first matching record; the file is saved after it\<close>
  "store_message_id email app mobile mid [] = []"
| "store_message_id email app mobile mid (act # acts) =
     (if matches_key email app mobile act then act\<lparr>a_message_id := Some mid\<rparr> # acts
      else act # store_message_id email app mobile mid acts)"

fun lookup_message_id ::
  "string \<Rightarrow> string \<Rightarrow> string \<Rightarrow> activation list \<Rightarrow> int option"
where
  \<comment> \<open>the loop of the admin handlers that reads \<open>message_id\<close> off the first matching
      record\<close>
  "lookup_message_id email app mobile [] = None"
| "lookup_message_id email app mobile (act # acts) =
     (if matches_key email app mobile act then a_message_id act
      else lookup_message_id email app mobile acts)"

section \<open>Configuration\<close>

definition SCREENSHOT_APPS :: "string list" where
  "SCREENSHOT_APPS = [''mstock'', ''angelone'']"

definition REJECTION_REASONS :: "(string \<times> string) list" where
  "REJECTION_REASONS =
     [(''77'', ''Incorrect Proof - Video/screenshot is incorrect, send correct recording showing process''),
      (''78'', ''Improper Activation - Activation not done properly, send correct video''),
      (''79'', ''Fraud Detected - Fraud detected, account not showing''),
      (''80'', ''Wrong Device - Activation not done on user's device''),
      (''81'', ''Late Submission - Activation completed after deadline''),
      (''nt'', ''Non Trade Approved'')]"

definition reasons_get :: "string \<Rightarrow> string \<Rightarrow> string" where
  \<comment> \<open>\<open>REJECTION_REASONS.get(key, default)\<close>\<close>
  "reasons_get key dflt = (case map_of REJECTION_REASONS key of None \<Rightarrow> dflt | Some t \<Rightarrow> t)"

definition read_apps :: "string list \<Rightarrow> string list" where
  \<comment> \<open>the catalog read from the lines of the app file\<close>
  "read_apps file_lines = map (\<lambda>line. lower (strip line)) (filter (\<lambda>line. strip line \<noteq> []) file_lines)"

section \<open>Regular expressions\<close>

text \<open>
  The two patterns of the bot use character classes, concatenation and repetition only,
  so matching is membership in the pattern's language, decided here by derivatives.
\<close>

datatype rexp =
  Zero | One | Atom "char \<Rightarrow> bool" | Plus rexp rexp | Times rexp rexp | Star rexp

fun re_null :: "rexp \<Rightarrow> bool" where
  "re_null Zero = False"
| "re_null One = True"
| "re_null (Atom p) = False"
| "re_null (Plus r s) = (re_null r \<or> re_null s)"
| "re_null (Times r s) = (re_null r \<and> re_null s)"
| "re_null (Star r) = True"

fun re_step :: "char \<Rightarrow> rexp \<Rightarrow> rexp" where
  "re_step c Zero = Zero"
| "re_step c One = Zero"
| "re_step c (Atom p) = (if p c then One else Zero)"
| "re_step c (Plus r s) = Plus (re_step c r) (re_step c s)"
| "re_step c (Times r s) =
     (if re_null r then Plus (Times (re_step c r) s) (re_step c s)
      else Times (re_step c r) s)"
| "re_step c (Star r) = Times (re_step c r) (Star r)"

fun re_accepts :: "rexp \<Rightarrow> string \<Rightarrow> bool" where
  "re_accepts r [] = re_null r"
| "re_accepts r (c # cs) = re_accepts (re_step c r) cs"

definition fullmatch :: "rexp \<Rightarrow> string \<Rightarrow> bool" where
  \<comment> \<open>\<open>re.fullmatch(pattern, s)\<close> as a truth value\<close>
  "fullmatch r s = re_accepts r s"

definition match_anchored :: "rexp \<Rightarrow> string \<Rightarrow> bool" where
  \<comment> \<open>\<open>re.match('^' + pattern + '$', s)\<close> as a truth value: \<open>$\<close> also matches just
      before a newline that ends the string\<close>
  "match_anchored r s =
     (re_accepts r s \<or> (s \<noteq> [] \<and> last s = CHR 0x0A \<and> re_accepts r (butlast s)))"

definition at_least_one :: "rexp \<Rightarrow> rexp" where
  "at_least_one r = Times r (Star r)"

definition ascii_alpha :: "char \<Rightarrow> bool" where
  \<comment> \<open>\<open>[a-zA-Z]\<close>\<close>
  "ascii_alpha c =
     (let n = (of_char c :: nat) in (97 \<le> n \<and> n \<le> 122) \<or> (65 \<le> n \<and> n \<le> 90))"

definition ascii_digit :: "char \<Rightarrow> bool" where
  \<comment> \<open>\<open>[0-9]\<close>, which is also what \<open>\d\<close> matches below code point 256\<close>
  "ascii_digit c = (let n = (of_char c :: nat) in 48 \<le> n \<and> n \<le> 57)"

definition local_class :: "char \<Rightarrow> bool" where
  \<comment> \<open>\<open>[a-zA-Z0-9._%+-]\<close>\<close>
  "local_class c = (ascii_alpha c \<or> ascii_digit c \<or> c \<in> set ''._%+-'')"

definition domain_class :: "char \<Rightarrow> bool" where
  \<comment> \<open>\<open>[a-zA-Z0-9.-]\<close>\<close>
  "domain_class c = (ascii_alpha c \<or> ascii_digit c \<or> c \<in> set ''.-'')"

definition email_pattern :: rexp where
  \<comment> \<open>\<open>[a-zA-Z0-9._%+-]+@[a-zA-Z0-9.-]+\.[a-zA-Z]{2,}\<close>\<close>
  "email_pattern =
     Times (at_least_one (Atom local_class))
       (Times (Atom (\<lambda>c. c = CHR ''@''))
          (Times (at_least_one (Atom domain_class))
             (Times (Atom (\<lambda>c. c = CHR ''.''))
                (Times (Atom ascii_alpha) (Times (Atom ascii_alpha) (Star (Atom ascii_alpha)))))))"

fun exactly :: "nat \<Rightarrow> rexp \<Rightarrow> rexp" where
  \<comment> \<open>\<open>r{n}\<close>\<close>
  "exactly 0 r = One"
| "exactly (Suc n) r = Times r (exactly n r)"

definition mobile_pattern :: rexp where
  \<comment> \<open>\<open>\d{10}\<close>\<close>
  "mobile_pattern = exactly 10 (Atom ascii_digit)"

section \<open>The user store\<close>

record user =
  u_email :: string
  u_password :: string
  u_name :: string
  u_chat_id :: "int option"
  u_created_at :: string

record credentials =
  c_name :: string
  c_password :: string
  c_chat_id :: "int option"

definition read_emails :: "user list \<Rightarrow> (string \<rightharpoonup> credentials)" where
  \<comment> \<open>the dict comprehension: a later record with the same email replaces an earlier one\<close>
  "read_emails users =
     fold (\<lambda>user m. m(u_email user \<mapsto>
                        \<lparr>c_name = u_name user, c_password = u_password user,
                         c_chat_id = u_chat_id user\<rparr>))
       users Map.empty"

fun add_user_loop :: "string \<Rightarrow> int option \<Rightarrow> user list \<Rightarrow> user list option" where
  \<comment> \<open>the loop inside the branch for an email that exists: \<open>Some\<close> is the store saved at
      the first record that lacks a chat id, \<open>None\<close> means the loop ran to its end\<close>
  "add_user_loop email chat_id [] = None"
| "add_user_loop email chat_id (user # users) =
     (if lower (u_email user) = lower email \<and> \<not> truthy_int (u_chat_id user) \<and> truthy_int chat_id
      then Some (user\<lparr>u_chat_id := chat_id\<rparr> # users)
      else map_option ((#) user) (add_user_loop email chat_id users))"

definition add_user ::
  "user list \<Rightarrow> string \<Rightarrow> string \<Rightarrow> string \<Rightarrow> int option \<Rightarrow> string
     \<Rightarrow> (bool \<times> string) \<times> user list"
where
  "add_user users email password name chat_id ts =
     (if list_ex (\<lambda>user. lower (u_email user) = lower email) users
      then (case add_user_loop email chat_id users of
              Some users' \<Rightarrow> ((True, ''User chat_id updated''), users')
            | None \<Rightarrow> ((False, ''User already exists''), users))
      else ((True, ''User added successfully''),
            users @ [\<lparr>u_email = lower email, u_password = password, u_name = name,
                       u_chat_id = chat_id, u_created_at = ts\<rparr>]))"

section \<open>Sessions and the login handlers\<close>

datatype conv_state =
  EMAIL | PASSWORD | MAIN_MENU | APP_SELECTION | ACTIVATION_PROOF | ADD_USER | END

datatype py_error = KeyError | ValueError | IndexError

record session =
  s_chat_id :: "int option"
  s_email :: "string option"
  s_name :: "string option"
  s_selected_app :: "string option"

definition email_input :: "string \<Rightarrow> session \<Rightarrow> conv_state \<times> session" where
  "email_input text sess =
     (let email = lower (strip text)
      in if \<not> match_anchored email_pattern email then (EMAIL, sess)
         else (PASSWORD, sess\<lparr>s_email := Some email\<rparr>))"

fun bind_chat_id :: "string \<Rightarrow> int \<Rightarrow> user list \<Rightarrow> user list" where
  \<comment> \<open>the loop of \<open>password_input\<close> that sets the chat id on the first record whose
      email is the session's, saves and stops\<close>
  "bind_chat_id email chat [] = []"
| "bind_chat_id email chat (user # users) =
     (if u_email user = email then user\<lparr>u_chat_id := Some chat\<rparr> # users
      else user # bind_chat_id email chat users)"

definition password_input ::
  "string \<Rightarrow> int \<Rightarrow> session \<Rightarrow> user list \<Rightarrow> py_error + (conv_state \<times> session \<times> user list)"
where
  \<comment> \<open>\<open>chat\<close> is \<open>update.effective_chat.id\<close>; the handler has no \<open>try\<close>, so a session
      without an email raises\<close>
  "password_input text chat sess users =
     (let password = strip text
      in case s_email sess of
           None \<Rightarrow> Inl KeyError
         | Some email \<Rightarrow>
             (case read_emails users email of
                None \<Rightarrow> Inr (EMAIL, sess, users)
              | Some c \<Rightarrow>
                  if c_password c = password
                  then Inr (MAIN_MENU, sess\<lparr>s_name := Some (c_name c)\<rparr>,
                            if \<not> truthy_int (c_chat_id c) then bind_chat_id email chat users
                            else users)
                  else Inr (EMAIL, sess, users)))"

section \<open>Submitting a proof\<close>

record message =
  m_photo :: "string list"
  m_video :: "string option"
  m_caption :: "string option"

record env =
  e_channel_id :: "string option"
  e_admin_id :: "string option"

datatype proof_reply =
  NoAppSelected | NeedScreenshotOrVideo | NeedVideo | MissingCaption | InvalidMobile
  | DuplicateActivation | SessionExpired | Submitted

datatype ledger_call =
  IsDuplicate string string
  | WriteActivation string string string
  | StoreMessageId string string string int

record proof_result =
  r_state :: conv_state
  r_store :: "activation list"
  r_reply :: proof_reply
  r_ledger :: "ledger_call list"
  r_keyboard :: "string list"
  r_admin_alert :: bool

definition rejected :: "conv_state \<Rightarrow> activation list \<Rightarrow> proof_reply \<Rightarrow> ledger_call list \<Rightarrow> proof_result" where
  \<comment> \<open>a return of the handler before anything is written\<close>
  "rejected st store reply calls =
     \<lparr>r_state = st, r_store = store, r_reply = reply, r_ledger = calls,
      r_keyboard = [], r_admin_alert = False\<rparr>"

definition proof_media :: "string \<Rightarrow> message \<Rightarrow> proof_reply + (string \<times> string)" where
  \<comment> \<open>the media check: the file id and the media type, or the reply that asks again\<close>
  "proof_media app msg =
     (if app \<in> set SCREENSHOT_APPS
      then (if m_photo msg \<noteq> [] then Inr (last (m_photo msg), ''photo'')
            else (case m_video msg of
                    Some v \<Rightarrow> Inr (v, ''video'')
                  | None \<Rightarrow> Inl NeedScreenshotOrVideo))
      else (case m_video msg of
              None \<Rightarrow> Inl NeedVideo
            | Some v \<Rightarrow> Inr (v, ''video'')))"

definition decision_data :: "string \<Rightarrow> string \<Rightarrow> string \<Rightarrow> string \<Rightarrow> string" where
  \<comment> \<open>\<open>f"{action}_{email}_{app}_{mobile}"\<close>\<close>
  "decision_data action email app mobile = action @ ''_'' @ email @ ''_'' @ app @ ''_'' @ mobile"

definition reason_data :: "string \<Rightarrow> string \<Rightarrow> string \<Rightarrow> string \<Rightarrow> string" where
  \<comment> \<open>\<open>f"reason_{reason_id}_{email}_{app}_{mobile}"\<close>\<close>
  "reason_data reason_id email app mobile =
     ''reason_'' @ reason_id @ ''_'' @ email @ ''_'' @ app @ ''_'' @ mobile"

definition reason_buttons :: "string \<Rightarrow> string \<Rightarrow> string \<Rightarrow> string list" where
  \<comment> \<open>the callback data of the buttons built from the local \<open>rejection_reasons\<close> dict\<close>
  "reason_buttons email app mobile =
     map (\<lambda>reason_id. reason_data reason_id email app mobile) [''77'', ''78'', ''79'', ''80'', ''81'']"

definition review_keyboard :: "string \<Rightarrow> string \<Rightarrow> string \<Rightarrow> string list" where
  \<comment> \<open>the callback data of the buttons under the channel post, in order\<close>
  "review_keyboard email app mobile =
     (if app = ''angelone'' then [reason_data ''nt'' email app mobile] else [])
     @ [decision_data ''approve'' email app mobile, decision_data ''reject'' email app mobile]
     @ reason_buttons email app mobile"

definition process_activation_proof ::
  "message \<Rightarrow> session \<Rightarrow> env \<Rightarrow> int option \<Rightarrow> string \<Rightarrow> string \<Rightarrow> activation list
     \<Rightarrow> proof_result"
where
  \<comment> \<open>\<open>sent\<close> is what posting to the channel gives: the id of the posted message, or
      \<open>None\<close> when the post raises; \<open>ts\<close> and \<open>sd\<close> are the clock readings;
      \<open>r_keyboard\<close> is the callback data of the buttons that reached the channel\<close>
  "process_activation_proof msg sess ev sent ts sd store =
     (case s_selected_app sess of
        None \<Rightarrow> rejected MAIN_MENU store NoAppSelected []
      | Some app \<Rightarrow>
          if app = [] then rejected MAIN_MENU store NoAppSelected []
          else
            (case proof_media app msg of
               Inl reply \<Rightarrow> rejected ACTIVATION_PROOF store reply []
             | Inr (media, media_type) \<Rightarrow>
                 if \<not> truthy_str (m_caption msg)
                 then rejected ACTIVATION_PROOF store MissingCaption []
                 else
                   (let mobile = strip (case m_caption msg of Some c \<Rightarrow> c | None \<Rightarrow> [])
                    in if \<not> fullmatch mobile_pattern mobile
                       then rejected ACTIVATION_PROOF store InvalidMobile []
                       else if is_duplicate store app mobile
                       then rejected MAIN_MENU store DuplicateActivation [IsDuplicate app mobile]
                       else
                         (case s_email sess of
                            None \<Rightarrow> rejected END store SessionExpired [IsDuplicate app mobile]
                          | Some email \<Rightarrow>
                              if email = []
                              then rejected END store SessionExpired [IsDuplicate app mobile]
                              else
                                (let store1 = write_activation store email app mobile
                                                ''pending'' ''pending'' ts sd;
                                     calls = [IsDuplicate app mobile,
                                              WriteActivation email app mobile]
                                 in if truthy_str (e_channel_id ev)
                                    then (case sent of
                                            Some mid \<Rightarrow>
                                              \<lparr>r_state = MAIN_MENU,
                                               r_store = store_message_id email app mobile mid store1,
                                               r_reply = Submitted,
                                               r_ledger = calls @ [StoreMessageId email app mobile mid],
                                               r_keyboard = review_keyboard email app mobile,
                                               r_admin_alert = False\<rparr>
                                          | None \<Rightarrow>
                                              \<lparr>r_state = MAIN_MENU, r_store = store1,
                                               r_reply = Submitted, r_ledger = calls,
                                               r_keyboard = [],
                                               r_admin_alert = truthy_str (e_admin_id ev)\<rparr>)
                                    else \<lparr>r_state = MAIN_MENU, r_store = store1,
                                          r_reply = Submitted, r_ledger = calls,
                                          r_keyboard = [], r_admin_alert = False\<rparr>)))))"

section \<open>The operator's decisions\<close>

datatype admin_reply =
  ApprovedActivation string string string
  | ReasonMenu string "string list"
  | DecidedActivation string string string string string
  | AnswerFailed string

record admin_result =
  d_store :: "activation list"
  d_reply :: admin_reply
  d_caption_edit :: "(int \<times> admin_reply) option"

definition caption_edit ::
  "env \<Rightarrow> string \<Rightarrow> string \<Rightarrow> string \<Rightarrow> activation list \<Rightarrow> admin_reply
     \<Rightarrow> (int \<times> admin_reply) option"
where
  \<comment> \<open>the edit of the channel post: made when a channel is configured and the first
      matching record carries a message id\<close>
  "caption_edit ev email app mobile store shown =
     (if truthy_str (e_channel_id ev)
      then (case lookup_message_id email app mobile store of
              None \<Rightarrow> None
            | Some mid \<Rightarrow> if mid \<noteq> 0 then Some (mid, shown) else None)
      else None)"

definition admin_approve :: "string \<Rightarrow> env \<Rightarrow> string \<Rightarrow> activation list \<Rightarrow> admin_result" where
  \<comment> \<open>\<open>data\<close> is \<open>query.data\<close>; unpacking the split into four names raises unless it has
      exactly four parts, and the handler's \<open>except\<close> answers the query. The value
      \<open>update_activation\<close> returns is dropped.\<close>
  "admin_approve data ev ts store =
     (case split_on CHR ''_'' data of
        [_, email, app, mobile] \<Rightarrow>
          (let store' = snd (update_activation store email app mobile ''approved'' ''0'' ts)
           in \<lparr>d_store = store',
               d_reply = ApprovedActivation email app mobile,
               d_caption_edit =
                 caption_edit ev email app mobile store' (ApprovedActivation email app mobile)\<rparr>)
      | _ \<Rightarrow> \<lparr>d_store = store, d_reply = AnswerFailed ''Failed to process approval'',
              d_caption_edit = None\<rparr>)"

definition admin_reject :: "string \<Rightarrow> activation list \<Rightarrow> admin_result" where
  \<comment> \<open>the plain Reject button: it only shows the reasons to choose from\<close>
  "admin_reject data store =
     (case split_on CHR ''_'' data of
        [_, email, app, mobile] \<Rightarrow>
          \<lparr>d_store = store,
           d_reply = ReasonMenu app
             ((if app = ''angelone'' then [reason_data ''nt'' email app mobile] else [])
              @ reason_buttons email app mobile),
           d_caption_edit = None\<rparr>
      | _ \<Rightarrow> \<lparr>d_store = store, d_reply = AnswerFailed ''Failed to process rejection'',
              d_caption_edit = None\<rparr>)"

definition rejection_status :: "string \<Rightarrow> string \<Rightarrow> string" where
  \<comment> \<open>the \<open>if\<close> of \<open>process_rejection\<close> that chooses the status\<close>
  "rejection_status app reason_id =
     (if app = ''angelone'' \<and> reason_id = ''nt'' then ''approved'' else ''rejected'')"

definition process_rejection :: "string \<Rightarrow> env \<Rightarrow> string \<Rightarrow> activation list \<Rightarrow> admin_result" where
  \<comment> \<open>indexing \<open>parts[1]\<close> to \<open>parts[4]\<close> raises when the split has fewer than five
      parts; parts beyond the fifth are ignored\<close>
  "process_rejection data ev ts store =
     (case split_on CHR ''_'' data of
        _ # reason_id # email # app # mobile # _ \<Rightarrow>
          (let reason_text = reasons_get reason_id ''Unknown reason'';
               status = rejection_status app reason_id;
               store' = snd (update_activation store email app mobile status reason_id ts);
               shown = DecidedActivation status email app mobile reason_text
           in \<lparr>d_store = store', d_reply = shown,
               d_caption_edit = caption_edit ev email app mobile store' shown\<rparr>)
      | _ \<Rightarrow> \<lparr>d_store = store, d_reply = AnswerFailed ''Failed to process rejection reason'',
              d_caption_edit = None\<rparr>)"

section \<open>Rendering the stored reason\<close>

definition first_word :: "string \<Rightarrow> py_error + string" where
  \<comment> \<open>\<open>s.split()[0]\<close>: the first run of characters that are not whitespace; an empty
      or all-whitespace string splits into no words and the index raises\<close>
  "first_word s =
     (case dropWhile isspace s of
        [] \<Rightarrow> Inl IndexError
      | c # cs \<Rightarrow> Inr (takeWhile (\<lambda>x. \<not> isspace x) (c # cs)))"

definition has_date :: "activation \<Rightarrow> bool" where
  \<comment> \<open>the submission date holds at least one word, as a date written by
      \<open>write_activation\<close> does\<close>
  "has_date act = (dropWhile isspace (a_submission_date act) \<noteq> [])"

record status_row =
  sr_app :: string
  sr_mobile :: string
  sr_status :: string
  sr_reason :: string
  sr_date :: string

fun status_rows :: "activation list \<Rightarrow> py_error + status_row list" where
  \<comment> \<open>the loop that builds the text: one row per activation, in order; the row holds
      the stored app, mobile and status (shown in upper case and capitalised, which
      cannot fail), the reason as text and the first word of the submission date. The
      first activation whose date has no word raises and ends the loop.\<close>
  "status_rows [] = Inr []"
| "status_rows (act # acts) =
     (case first_word (a_submission_date act) of
        Inl e \<Rightarrow> Inl e
      | Inr d \<Rightarrow>
          (case status_rows acts of
             Inl e \<Rightarrow> Inl e
           | Inr rows \<Rightarrow>
               Inr (\<lparr>sr_app = a_app act, sr_mobile = a_mobile act,
                     sr_status = a_status act,
                     sr_reason = reasons_get (a_reason act) (a_reason act),
                     sr_date = d\<rparr> # rows)))"

definition activation_status :: "session \<Rightarrow> activation list \<Rightarrow> py_error + status_row list" where
  \<comment> \<open>the rows the user is shown for the activations of the session's email, in file
      order. An error is what the handler's \<open>except\<close> catches: the \<open>KeyError\<close> of a
      session without an email or the \<open>IndexError\<close> of a blank submission date; the
      handler then shows nothing and stays in the main menu.\<close>
  "activation_status sess store =
     (case s_email sess of
        None \<Rightarrow> Inl KeyError
      | Some email \<Rightarrow> status_rows (read_activations store (Some email) None None))"

section \<open>Facts about strings and patterns\<close>

lemma re_accepts_Zero: "re_accepts Zero s = False"
  by (induction s) auto

lemma re_accepts_Times_Zero: "re_accepts (Times Zero r) s = False"
  by (induction s) auto

lemma re_accepts_Plus: "re_accepts (Plus r1 r2) s = (re_accepts r1 s \<or> re_accepts r2 s)"
  by (induction s arbitrary: r1 r2) auto

lemma re_accepts_Times_One: "re_accepts (Times One r) s = re_accepts r s"
  by (cases s) (auto simp: re_accepts_Plus re_accepts_Times_Zero)

lemma re_accepts_Atom_Times:
  "re_accepts (Times (Atom p) r) s = (case s of [] \<Rightarrow> False | c # cs \<Rightarrow> p c \<and> re_accepts r cs)"
  by (cases s) (auto simp: re_accepts_Times_One re_accepts_Times_Zero)

lemma re_accepts_One: "re_accepts One s = (s = [])"
  by (cases s) (auto simp: re_accepts_Zero)

lemma re_accepts_exactly:
  "re_accepts (exactly n (Atom p)) s = (length s = n \<and> list_all p s)"
  by (induction n arbitrary: s)
     (auto simp: re_accepts_One re_accepts_Atom_Times split: list.splits)

lemma fullmatch_mobile:
  "fullmatch mobile_pattern s = (length s = 10 \<and> list_all ascii_digit s)"
  by (simp add: fullmatch_def mobile_pattern_def re_accepts_exactly)

lemma ascii_digit_plain:
  "ascii_digit c \<Longrightarrow> c \<noteq> CHR '' '' \<and> c \<noteq> CHR ''_'' \<and> \<not> isspace c"
  by (auto simp: ascii_digit_def isspace_def Let_def)

lemma remove_spaces_digits: "list_all ascii_digit s \<Longrightarrow> remove_spaces s = s"
  by (induction s) (auto simp: remove_spaces_def dest: ascii_digit_plain)

lemma dropWhile_isspace_digits: "list_all ascii_digit s \<Longrightarrow> dropWhile isspace s = s"
  by (cases s) (auto dest: ascii_digit_plain)

lemma strip_digits: "list_all ascii_digit s \<Longrightarrow> strip s = s"
  by (simp add: strip_def dropWhile_isspace_digits)

lemma digits_no_underscore: "list_all ascii_digit s \<Longrightarrow> CHR ''_'' \<notin> set s"
  by (induction s) (auto dest: ascii_digit_plain)

lemma split_on_plain: "d \<notin> set a \<Longrightarrow> split_on d a = [a]"
  by (induction a) auto

lemma split_on_append: "d \<notin> set a \<Longrightarrow> split_on d (a @ d # rest) = a # split_on d rest"
  by (induction a) (auto split: list.splits)

lemma lower_char_idem: "lower_char (lower_char c) = lower_char c"
  by (auto simp: lower_char_def Let_def)

lemma lower_idem: "lower (lower s) = lower s"
  by (simp add: lower_def lower_char_idem)

section \<open>Facts about the ledger\<close>

lemma read_activations_app:
  "app \<noteq> [] \<Longrightarrow>
     read_activations store None (Some app) None = filter (\<lambda>act. a_app act = app) store"
  by (induction store) (auto simp: truthy_str_def)

lemma read_activations_email:
  "email \<noteq> [] \<Longrightarrow>
     read_activations store (Some email) None None = filter (\<lambda>act. a_email act = email) store"
  by (induction store) (auto simp: truthy_str_def)

lemma is_duplicate_set:
  "app \<noteq> [] \<Longrightarrow>
     is_duplicate store app mobile =
       (\<exists>act\<in>set store. a_app act = app \<and> a_mobile act = remove_spaces mobile
          \<and> (a_status act = ''pending'' \<or> a_status act = ''approved''))"
  by (auto simp: is_duplicate_def read_activations_app list_ex_iff)

lemma update_loop_none:
  "\<forall>act\<in>set store. \<not> matches_key email app mobile act \<Longrightarrow>
     update_loop email app mobile status reason ts store = (False, store)"
  by (induction store) auto

lemma update_loop_first:
  "\<forall>x\<in>set pre. \<not> matches_key email app mobile x \<Longrightarrow> matches_key email app mobile act \<Longrightarrow>
     update_loop email app mobile status reason ts (pre @ act # rest) =
       (True, pre @ act\<lparr>a_status := status, a_reason := reason, a_timestamp := ts\<rparr> # rest)"
  by (induction pre) auto

lemma update_activation_none:
  "\<forall>act\<in>set store. \<not> matches_key email app mobile act \<Longrightarrow>
     update_activation store email app mobile status reason ts = (False, store)"
  by (simp add: update_activation_def update_loop_none)

lemma update_activation_first:
  "\<forall>x\<in>set pre. \<not> matches_key email app mobile x \<Longrightarrow> matches_key email app mobile act \<Longrightarrow>
     update_activation (pre @ act # rest) email app mobile status reason ts =
       (True, pre @ act\<lparr>a_status := status, a_reason := reason, a_timestamp := ts\<rparr> # rest)"
  by (simp add: update_activation_def update_loop_first)

section \<open>Duplicate detection\<close>

text \<open>
  Claim C1. For a non-empty app identifier \<open>app\<close> (an empty one is "no app selected"
  to the handler and "no filter" to \<open>read_activations\<close>), \<open>is_duplicate\<close> is true
  exactly when the store holds a record of that app whose mobile is the given one with
  every space character taken out and whose status is pending or approved. So a proof
  submitted for an app and a 10-digit mobile that already have a pending record is
  answered as a duplicate, and the store is left as it was.
\<close>

theorem is_duplicate_iff:
  "app \<noteq> [] \<Longrightarrow>
     (is_duplicate store app mobile \<longleftrightarrow>
        (\<exists>act\<in>set store. a_app act = app
           \<and> a_mobile act = filter (\<lambda>c. c \<noteq> CHR '' '') mobile
           \<and> (a_status act = ''pending'' \<or> a_status act = ''approved'')))
     \<and> (s_selected_app sess = Some app \<and> proof_media app msg = Inr media
          \<and> m_caption msg = Some caption \<and> strip caption = digits
          \<and> fullmatch mobile_pattern digits
          \<and> (\<exists>act\<in>set store. a_app act = app \<and> a_mobile act = digits
                \<and> a_status act = ''pending'')
        \<longrightarrow> r_reply (process_activation_proof msg sess ev sent ts sd store) = DuplicateActivation
            \<and> r_store (process_activation_proof msg sess ev sent ts sd store) = store)"
proof (intro conjI impI)
  assume app: "app \<noteq> []"
  show "is_duplicate store app mobile \<longleftrightarrow>
        (\<exists>act\<in>set store. a_app act = app
           \<and> a_mobile act = filter (\<lambda>c. c \<noteq> CHR '' '') mobile
           \<and> (a_status act = ''pending'' \<or> a_status act = ''approved''))"
    using is_duplicate_set [OF app, of store mobile] by (simp add: remove_spaces_def)
next
  assume app: "app \<noteq> []"
  assume h: "s_selected_app sess = Some app \<and> proof_media app msg = Inr media
          \<and> m_caption msg = Some caption \<and> strip caption = digits
          \<and> fullmatch mobile_pattern digits
          \<and> (\<exists>act\<in>set store. a_app act = app \<and> a_mobile act = digits
                \<and> a_status act = ''pending'')"
  from h have ds: "list_all ascii_digit digits" and len: "length digits = 10"
    by (simp_all add: fullmatch_mobile)
  have clean: "remove_spaces digits = digits"
    using ds by (rule remove_spaces_digits)
  have dup: "is_duplicate store app digits"
    using h app clean by (auto simp: is_duplicate_set)
  have cap: "truthy_str (m_caption msg)"
    using h len by (auto simp: truthy_str_def strip_def)
  obtain f k where media: "media = (f, k)"
    by (cases media)
  show "r_reply (process_activation_proof msg sess ev sent ts sd store) = DuplicateActivation"
    using h app dup cap media by (simp add: process_activation_proof_def rejected_def)
  show "r_store (process_activation_proof msg sess ev sent ts sd store) = store"
    using h app dup cap media by (simp add: process_activation_proof_def rejected_def)
qed

theorem is_duplicate_iff_witness:
  "is_duplicate
     [\<lparr>a_email = ''a@b.com'', a_mobile = ''9876543210'', a_app = ''angelone'',
       a_status = ''pending'', a_reason = ''pending'', a_timestamp = ''t0'',
       a_submission_date = ''d0'', a_message_id = None\<rparr>]
     ''angelone'' ''98765 43210''
   \<and> \<not> is_duplicate
     [\<lparr>a_email = ''a@b.com'', a_mobile = ''98765 43210'', a_app = ''angelone'',
       a_status = ''pending'', a_reason = ''pending'', a_timestamp = ''t0'',
       a_submission_date = ''d0'', a_message_id = None\<rparr>]
     ''angelone'' ''98765 43210''
   \<and> r_reply (process_activation_proof
        \<lparr>m_photo = [], m_video = Some ''v1'', m_caption = Some ''9876543210''\<rparr>
        \<lparr>s_chat_id = Some 7, s_email = Some ''c@d.com'', s_name = None,
         s_selected_app = Some ''angelone''\<rparr>
        \<lparr>e_channel_id = None, e_admin_id = None\<rparr> None ''t1'' ''d1''
        [\<lparr>a_email = ''a@b.com'', a_mobile = ''9876543210'', a_app = ''angelone'',
          a_status = ''pending'', a_reason = ''pending'', a_timestamp = ''t0'',
          a_submission_date = ''d0'', a_message_id = None\<rparr>]) = DuplicateActivation
   \<and> r_store (process_activation_proof
        \<lparr>m_photo = [], m_video = Some ''v1'', m_caption = Some ''9876543210''\<rparr>
        \<lparr>s_chat_id = Some 7, s_email = Some ''c@d.com'', s_name = None,
         s_selected_app = Some ''angelone''\<rparr>
        \<lparr>e_channel_id = None, e_admin_id = None\<rparr> None ''t1'' ''d1''
        [\<lparr>a_email = ''a@b.com'', a_mobile = ''9876543210'', a_app = ''angelone'',
          a_status = ''pending'', a_reason = ''pending'', a_timestamp = ''t0'',
          a_submission_date = ''d0'', a_message_id = None\<rparr>]) =
       [\<lparr>a_email = ''a@b.com'', a_mobile = ''9876543210'', a_app = ''angelone'',
         a_status = ''pending'', a_reason = ''pending'', a_timestamp = ''t0'',
         a_submission_date = ''d0'', a_message_id = None\<rparr>]"
proof -
  have ne: "''angelone'' \<noteq> []" by simp
  note w = is_duplicate_iff [OF ne, where mobile = "''98765 43210''"]
  from w [where store = "[\<lparr>a_email = ''a@b.com'', a_mobile = ''9876543210'',
         a_app = ''angelone'', a_status = ''pending'', a_reason = ''pending'',
         a_timestamp = ''t0'', a_submission_date = ''d0'', a_message_id = None\<rparr>]"
      and sess = "\<lparr>s_chat_id = Some 7, s_email = Some ''c@d.com'', s_name = None,
        s_selected_app = Some ''angelone''\<rparr>"
      and msg = "\<lparr>m_photo = [], m_video = Some ''v1'', m_caption = Some ''9876543210''\<rparr>"
      and media = "(''v1'', ''video'')" and caption = "''9876543210''"
      and digits = "''9876543210''"
      and ev = "\<lparr>e_channel_id = None, e_admin_id = None\<rparr>" and sent = None
      and ts = "''t1''" and sd = "''d1''"]
  have spaced: "is_duplicate
       [\<lparr>a_email = ''a@b.com'', a_mobile = ''9876543210'', a_app = ''angelone'',
         a_status = ''pending'', a_reason = ''pending'', a_timestamp = ''t0'',
         a_submission_date = ''d0'', a_message_id = None\<rparr>]
       ''angelone'' ''98765 43210''"
    and reply: "r_reply (process_activation_proof
        \<lparr>m_photo = [], m_video = Some ''v1'', m_caption = Some ''9876543210''\<rparr>
        \<lparr>s_chat_id = Some 7, s_email = Some ''c@d.com'', s_name = None,
         s_selected_app = Some ''angelone''\<rparr>
        \<lparr>e_channel_id = None, e_admin_id = None\<rparr> None ''t1'' ''d1''
        [\<lparr>a_email = ''a@b.com'', a_mobile = ''9876543210'', a_app = ''angelone'',
          a_status = ''pending'', a_reason = ''pending'', a_timestamp = ''t0'',
          a_submission_date = ''d0'', a_message_id = None\<rparr>]) = DuplicateActivation"
    and kept: "r_store (process_activation_proof
        \<lparr>m_photo = [], m_video = Some ''v1'', m_caption = Some ''9876543210''\<rparr>
        \<lparr>s_chat_id = Some 7, s_email = Some ''c@d.com'', s_name = None,
         s_selected_app = Some ''angelone''\<rparr>
        \<lparr>e_channel_id = None, e_admin_id = None\<rparr> None ''t1'' ''d1''
        [\<lparr>a_email = ''a@b.com'', a_mobile = ''9876543210'', a_app = ''angelone'',
          a_status = ''pending'', a_reason = ''pending'', a_timestamp = ''t0'',
          a_submission_date = ''d0'', a_message_id = None\<rparr>]) =
       [\<lparr>a_email = ''a@b.com'', a_mobile = ''9876543210'', a_app = ''angelone'',
         a_status = ''pending'', a_reason = ''pending'', a_timestamp = ''t0'',
         a_submission_date = ''d0'', a_message_id = None\<rparr>]"
    by (simp_all add: proof_media_def SCREENSHOT_APPS_def strip_def isspace_def
        fullmatch_mobile ascii_digit_def)
  from w [where store = "[\<lparr>a_email = ''a@b.com'', a_mobile = ''98765 43210'',
         a_app = ''angelone'', a_status = ''pending'', a_reason = ''pending'',
         a_timestamp = ''t0'', a_submission_date = ''d0'', a_message_id = None\<rparr>]"]
  have unspaced: "\<not> is_duplicate
       [\<lparr>a_email = ''a@b.com'', a_mobile = ''98765 43210'', a_app = ''angelone'',
         a_status = ''pending'', a_reason = ''pending'', a_timestamp = ''t0'',
         a_submission_date = ''d0'', a_message_id = None\<rparr>]
       ''angelone'' ''98765 43210''"
    by simp
  show ?thesis
    using spaced unspaced reply kept by simp
qed

lemma update_activation_shape:
  "(\<not> list_ex (matches_key email app mobile) store
      \<and> update_activation store email app mobile status reason ts = (False, store))
   \<or> (\<exists>pre act rest. store = pre @ act # rest
         \<and> (\<forall>x\<in>set pre. \<not> matches_key email app mobile x)
         \<and> matches_key email app mobile act
         \<and> update_activation store email app mobile status reason ts =
             (True, pre @ act\<lparr>a_status := status, a_reason := reason, a_timestamp := ts\<rparr> # rest))"
proof (cases "list_ex (matches_key email app mobile) store")
  case False
  then show ?thesis
    by (simp add: update_activation_none list_ex_iff)
next
  case True
  then obtain pre act rest where
    s: "store = pre @ act # rest" and m: "matches_key email app mobile act"
    and n: "\<forall>x\<in>set pre. \<not> matches_key email app mobile x"
    using split_list_first_prop [of store "matches_key email app mobile"]
    unfolding list_ex_iff by blast
  show ?thesis
    using s m n update_activation_first [OF n m, of rest status reason ts] by blast
qed

section \<open>Resolving never adds a record\<close>

text \<open>
  Claim C8. \<open>update_activation\<close> keeps the number of records, whatever the store and
  whatever the status of the record it meets (a record already approved or rejected is
  overwritten like a pending one): every record other than the first one matching
  (email, app, mobile) in file order is left as it was, and that first one, if there is
  one, gets the new status, reason and timestamp.
\<close>

theorem update_activation_frame:
  "length (snd (update_activation store email app mobile status reason ts)) = length store
   \<and> (\<forall>j < length store.
         j \<noteq> length (takeWhile (\<lambda>act. \<not> matches_key email app mobile act) store)
         \<longrightarrow> snd (update_activation store email app mobile status reason ts) ! j = store ! j)
   \<and> (\<forall>j < length store.
         j = length (takeWhile (\<lambda>act. \<not> matches_key email app mobile act) store)
         \<longrightarrow> snd (update_activation store email app mobile status reason ts) ! j =
               (store ! j)\<lparr>a_status := status, a_reason := reason, a_timestamp := ts\<rparr>)"
proof -
  consider
    (none) "\<not> list_ex (matches_key email app mobile) store"
      "update_activation store email app mobile status reason ts = (False, store)"
  | (some) pre act rest where "store = pre @ act # rest"
      "\<forall>x\<in>set pre. \<not> matches_key email app mobile x"
      "matches_key email app mobile act"
      "update_activation store email app mobile status reason ts =
         (True, pre @ act\<lparr>a_status := status, a_reason := reason, a_timestamp := ts\<rparr> # rest)"
    using update_activation_shape [of email app mobile store status reason ts] by blast
  then show ?thesis
  proof cases
    case none
    from none(1) have tw: "takeWhile (\<lambda>act. \<not> matches_key email app mobile act) store = store"
      by (simp add: list_ex_iff)
    show ?thesis
      unfolding tw none(2) by simp
  next
    case some
    have tw: "takeWhile (\<lambda>act. \<not> matches_key email app mobile act) store = pre"
      using some(1,2,3) by (simp add: takeWhile_append2)
    have res: "snd (update_activation store email app mobile status reason ts) =
        pre @ act\<lparr>a_status := status, a_reason := reason, a_timestamp := ts\<rparr> # rest"
      by (simp add: some(4))
    have len: "length (snd (update_activation store email app mobile status reason ts)) = length store"
      using res some(1) by simp
    have other: "snd (update_activation store email app mobile status reason ts) ! j = store ! j"
      if "j \<noteq> length pre" for j
      using res some(1) that by (simp add: nth_append nth_Cons split: nat.splits)
    have this_one: "snd (update_activation store email app mobile status reason ts) ! length pre =
        (store ! length pre)\<lparr>a_status := status, a_reason := reason, a_timestamp := ts\<rparr>"
      using res some(1) by simp
    show ?thesis
      unfolding tw using len other this_one by blast
  qed
qed

theorem update_activation_frame_witness:
  "length (snd (update_activation
      [\<lparr>a_email = ''a@b.com'', a_mobile = ''9876543210'', a_app = ''upstox'',
        a_status = ''approved'', a_reason = ''0'', a_timestamp = ''t1'',
        a_submission_date = ''d0'', a_message_id = None\<rparr>,
       \<lparr>a_email = ''c@d.com'', a_mobile = ''9876543210'', a_app = ''lemonn'',
        a_status = ''pending'', a_reason = ''pending'', a_timestamp = ''t2'',
        a_submission_date = ''d2'', a_message_id = None\<rparr>]
      ''a@b.com'' ''upstox'' ''9876543210'' ''rejected'' ''79'' ''t3'')) = 2
   \<and> snd (update_activation
      [\<lparr>a_email = ''a@b.com'', a_mobile = ''9876543210'', a_app = ''upstox'',
        a_status = ''approved'', a_reason = ''0'', a_timestamp = ''t1'',
        a_submission_date = ''d0'', a_message_id = None\<rparr>,
       \<lparr>a_email = ''c@d.com'', a_mobile = ''9876543210'', a_app = ''lemonn'',
        a_status = ''pending'', a_reason = ''pending'', a_timestamp = ''t2'',
        a_submission_date = ''d2'', a_message_id = None\<rparr>]
      ''a@b.com'' ''upstox'' ''9876543210'' ''rejected'' ''79'' ''t3'') ! 1 =
      \<lparr>a_email = ''c@d.com'', a_mobile = ''9876543210'', a_app = ''lemonn'',
        a_status = ''pending'', a_reason = ''pending'', a_timestamp = ''t2'',
        a_submission_date = ''d2'', a_message_id = None\<rparr>
   \<and> snd (update_activation
      [\<lparr>a_email = ''a@b.com'', a_mobile = ''9876543210'', a_app = ''upstox'',
        a_status = ''approved'', a_reason = ''0'', a_timestamp = ''t1'',
        a_submission_date = ''d0'', a_message_id = None\<rparr>,
       \<lparr>a_email = ''c@d.com'', a_mobile = ''9876543210'', a_app = ''lemonn'',
        a_status = ''pending'', a_reason = ''pending'', a_timestamp = ''t2'',
        a_submission_date = ''d2'', a_message_id = None\<rparr>]
      ''a@b.com'' ''upstox'' ''9876543210'' ''rejected'' ''79'' ''t3'') ! 0 =
      \<lparr>a_email = ''a@b.com'', a_mobile = ''9876543210'', a_app = ''upstox'',
        a_status = ''rejected'', a_reason = ''79'', a_timestamp = ''t3'',
        a_submission_date = ''d0'', a_message_id = None\<rparr>"
proof -
  let ?store = "[\<lparr>a_email = ''a@b.com'', a_mobile = ''9876543210'', a_app = ''upstox'',
        a_status = ''approved'', a_reason = ''0'', a_timestamp = ''t1'',
        a_submission_date = ''d0'', a_message_id = None\<rparr>,
       \<lparr>a_email = ''c@d.com'', a_mobile = ''9876543210'', a_app = ''lemonn'',
        a_status = ''pending'', a_reason = ''pending'', a_timestamp = ''t2'',
        a_submission_date = ''d2'', a_message_id = None\<rparr>]"
  note f = update_activation_frame [of ?store "''a@b.com''" "''upstox''" "''9876543210''"
      "''rejected''" "''79''" "''t3''"]
  have i: "length (takeWhile (\<lambda>act. \<not> matches_key ''a@b.com'' ''upstox'' ''9876543210'' act) ?store) = 0"
    by (simp add: matches_key_def remove_spaces_def)
  from f have l: "length (snd (update_activation ?store ''a@b.com'' ''upstox'' ''9876543210''
      ''rejected'' ''79'' ''t3'')) = 2"
    by simp
  from f have one: "snd (update_activation ?store ''a@b.com'' ''upstox'' ''9876543210''
      ''rejected'' ''79'' ''t3'') ! 1 = ?store ! 1"
    unfolding i by simp
  from f have zero: "snd (update_activation ?store ''a@b.com'' ''upstox'' ''9876543210''
      ''rejected'' ''79'' ''t3'') ! 0 =
      (?store ! 0)\<lparr>a_status := ''rejected'', a_reason := ''79'', a_timestamp := ''t3''\<rparr>"
    unfolding i by simp
  show ?thesis using l one zero by simp
qed


section \<open>Facts about the decision references\<close>

lemma split_decision_data:
  "CHR ''_'' \<notin> set action \<Longrightarrow> CHR ''_'' \<notin> set email \<Longrightarrow> CHR ''_'' \<notin> set app \<Longrightarrow>
   CHR ''_'' \<notin> set mobile \<Longrightarrow>
     split_on CHR ''_'' (decision_data action email app mobile) = [action, email, app, mobile]"
  by (simp add: decision_data_def split_on_append split_on_plain)

lemma split_reason_data:
  "CHR ''_'' \<notin> set reason_id \<Longrightarrow> CHR ''_'' \<notin> set email \<Longrightarrow> CHR ''_'' \<notin> set app \<Longrightarrow>
   CHR ''_'' \<notin> set mobile \<Longrightarrow>
     split_on CHR ''_'' (reason_data reason_id email app mobile) =
       [''reason'', reason_id, email, app, mobile]"
proof -
  assume a: "CHR ''_'' \<notin> set reason_id" "CHR ''_'' \<notin> set email" "CHR ''_'' \<notin> set app"
    "CHR ''_'' \<notin> set mobile"
  have r: "reason_data reason_id email app mobile =
      ''reason'' @ CHR ''_'' # decision_data reason_id email app mobile"
    by (simp add: reason_data_def decision_data_def)
  have "split_on CHR ''_'' (''reason'' @ CHR ''_'' # decision_data reason_id email app mobile) =
      ''reason'' # split_on CHR ''_'' (decision_data reason_id email app mobile)"
    by (rule split_on_append) simp
  then show ?thesis
    using a by (simp add: r split_decision_data)
qed

lemma find_first:
  "\<forall>y\<in>set pre. \<not> P y \<Longrightarrow> P x \<Longrightarrow> find P (pre @ x # rest) = Some x"
  by (induction pre) auto

lemma matches_key_update:
  "matches_key email app mobile (act\<lparr>a_status := st, a_reason := r, a_timestamp := t\<rparr>) =
     matches_key email app mobile act"
  by (simp add: matches_key_def)

lemma update_activation_found:
  "list_ex (matches_key email app mobile) store \<Longrightarrow>
     \<exists>r. find (matches_key email app mobile)
            (snd (update_activation store email app mobile status reason ts)) = Some r
          \<and> a_status r = status \<and> a_reason r = reason \<and> a_timestamp r = ts"
proof -
  assume ex: "list_ex (matches_key email app mobile) store"
  with update_activation_shape [of email app mobile store status reason ts]
  obtain pre act rest where
    n: "\<forall>x\<in>set pre. \<not> matches_key email app mobile x"
    and m: "matches_key email app mobile act"
    and u: "update_activation store email app mobile status reason ts =
      (True, pre @ act\<lparr>a_status := status, a_reason := reason, a_timestamp := ts\<rparr> # rest)"
    by blast
  have "find (matches_key email app mobile)
      (pre @ act\<lparr>a_status := status, a_reason := reason, a_timestamp := ts\<rparr> # rest) =
      Some (act\<lparr>a_status := status, a_reason := reason, a_timestamp := ts\<rparr>)"
    using n m by (intro find_first) (simp_all add: matches_key_update)
  then show ?thesis by (simp add: u)
qed

lemma admin_approve_parts:
  "split_on CHR ''_'' data = [p, email, app, mobile] \<Longrightarrow>
     d_store (admin_approve data ev ts store) =
       snd (update_activation store email app mobile ''approved'' ''0'' ts)
     \<and> d_reply (admin_approve data ev ts store) = ApprovedActivation email app mobile"
  by (simp add: admin_approve_def Let_def)

lemma process_rejection_parts:
  "split_on CHR ''_'' data = p # reason_id # email # app # mobile # rest \<Longrightarrow>
     d_store (process_rejection data ev ts store) =
       snd (update_activation store email app mobile (rejection_status app reason_id) reason_id ts)
     \<and> d_reply (process_rejection data ev ts store) =
         DecidedActivation (rejection_status app reason_id) email app mobile
           (reasons_get reason_id ''Unknown reason'')"
  by (simp add: process_rejection_def Let_def)

lemma admin_reject_store: "d_store (admin_reject data store) = store"
  by (simp add: admin_reject_def split: list.splits)


section \<open>Submit, then approve\<close>

text \<open>
  Claim C2, as amended. For an email and an app without an underscore and a 10-digit
  mobile, writing the activation (status and reason both \<open>''pending''\<close>) and then
  pressing Approve leaves the first stored record for (email, app, mobile) with status
  \<open>''approved''\<close> and reason \<open>''0''\<close>, the default of \<open>update_activation\<close>, not the
  reason of the submission; when the store held no record for the triple before, that
  record is the submitted one and nothing else changed.
\<close>

theorem submit_then_approve:
  "CHR ''_'' \<notin> set email \<Longrightarrow> CHR ''_'' \<notin> set app \<Longrightarrow> fullmatch mobile_pattern mobile \<Longrightarrow>
     (\<exists>r. find (matches_key email app mobile)
             (d_store (admin_approve (decision_data ''approve'' email app mobile) ev ts2
                (write_activation store email app mobile ''pending'' ''pending'' ts sd))) = Some r
          \<and> a_status r = ''approved'' \<and> a_reason r = ''0'')
     \<and> ((\<forall>act\<in>set store. \<not> matches_key email app mobile act) \<longrightarrow>
          d_store (admin_approve (decision_data ''approve'' email app mobile) ev ts2
             (write_activation store email app mobile ''pending'' ''pending'' ts sd)) =
          store @ [\<lparr>a_email = email, a_mobile = mobile, a_app = app, a_status = ''approved'',
                    a_reason = ''0'', a_timestamp = ts2, a_submission_date = sd,
                    a_message_id = None\<rparr>])"
proof -
  assume e: "CHR ''_'' \<notin> set email" and a: "CHR ''_'' \<notin> set app"
    and m: "fullmatch mobile_pattern mobile"
  let ?new = "\<lparr>a_email = email, a_mobile = mobile, a_app = app, a_status = ''pending'',
      a_reason = ''pending'', a_timestamp = ts, a_submission_date = sd, a_message_id = None\<rparr>"
  let ?store1 = "write_activation store email app mobile ''pending'' ''pending'' ts sd"
  from m have digits: "list_all ascii_digit mobile"
    by (simp add: fullmatch_mobile)
  then have clean: "remove_spaces mobile = mobile" and mu: "CHR ''_'' \<notin> set mobile"
    by (simp_all add: remove_spaces_digits digits_no_underscore)
  have s1: "?store1 = store @ [?new]"
    by (simp add: write_activation_def clean)
  have new: "matches_key email app mobile ?new"
    by (simp add: matches_key_def clean)
  have split: "split_on CHR ''_'' (decision_data ''approve'' email app mobile) =
      [''approve'', email, app, mobile]"
    using e a mu by (simp add: split_decision_data)
  have st: "d_store (admin_approve (decision_data ''approve'' email app mobile) ev ts2 ?store1) =
      snd (update_activation ?store1 email app mobile ''approved'' ''0'' ts2)"
    using admin_approve_parts [OF split] by simp
  have ex: "list_ex (matches_key email app mobile) ?store1"
    using new by (simp add: s1 list_ex_iff)
  have first: "\<exists>r. find (matches_key email app mobile)
             (d_store (admin_approve (decision_data ''approve'' email app mobile) ev ts2 ?store1)) = Some r
          \<and> a_status r = ''approved'' \<and> a_reason r = ''0''"
    unfolding st using update_activation_found [OF ex, of "''approved''" "''0''" ts2] by blast
  have fresh: "d_store (admin_approve (decision_data ''approve'' email app mobile) ev ts2 ?store1) =
          store @ [\<lparr>a_email = email, a_mobile = mobile, a_app = app, a_status = ''approved'',
                    a_reason = ''0'', a_timestamp = ts2, a_submission_date = sd,
                    a_message_id = None\<rparr>]"
    if none: "\<forall>act\<in>set store. \<not> matches_key email app mobile act"
  proof -
    have u: "update_activation (store @ [?new]) email app mobile ''approved'' ''0'' ts2 =
        (True, store @ [?new\<lparr>a_status := ''approved'', a_reason := ''0'', a_timestamp := ts2\<rparr>])"
      using none new by (rule update_activation_first)
    have st': "d_store (admin_approve (decision_data ''approve'' email app mobile) ev ts2
          (store @ [?new])) =
        snd (update_activation (store @ [?new]) email app mobile ''approved'' ''0'' ts2)"
      using st unfolding s1 .
    show ?thesis
      unfolding s1 by (simp add: st' u)
  qed
  show ?thesis using first fresh by blast
qed

theorem submit_then_approve_witness:
  "d_store (admin_approve (decision_data ''approve'' ''a@b.com'' ''angelone'' ''9876543210'')
      \<lparr>e_channel_id = None, e_admin_id = None\<rparr> ''t2''
      (write_activation [] ''a@b.com'' ''angelone'' ''9876543210'' ''pending'' ''pending''
         ''t1'' ''d1'')) =
   [\<lparr>a_email = ''a@b.com'', a_mobile = ''9876543210'', a_app = ''angelone'',
     a_status = ''approved'', a_reason = ''0'', a_timestamp = ''t2'',
     a_submission_date = ''d1'', a_message_id = None\<rparr>]"
  using submit_then_approve [of "''a@b.com''" "''angelone''" "''9876543210''"
      "\<lparr>e_channel_id = None, e_admin_id = None\<rparr>" "''t2''" "[]" "''t1''" "''d1''"]
  by (simp add: fullmatch_mobile ascii_digit_def)

theorem approve_reason_counterexample:
  "map a_status
     (d_store (admin_approve ''approve_a@b.com_angelone_9876543210''
        \<lparr>e_channel_id = None, e_admin_id = None\<rparr> ''t2''
        (write_activation [] ''a@b.com'' ''angelone'' ''9876543210'' ''pending'' ''pending''
           ''t1'' ''d1''))) = [''approved'']
   \<and> map a_reason
     (d_store (admin_approve ''approve_a@b.com_angelone_9876543210''
        \<lparr>e_channel_id = None, e_admin_id = None\<rparr> ''t2''
        (write_activation [] ''a@b.com'' ''angelone'' ''9876543210'' ''pending'' ''pending''
           ''t1'' ''d1''))) = [''0'']
   \<and> map a_reason
     (d_store (admin_approve ''approve_a@b.com_angelone_9876543210''
        \<lparr>e_channel_id = None, e_admin_id = None\<rparr> ''t2''
        (write_activation [] ''a@b.com'' ''angelone'' ''9876543210'' ''pending'' ''pending''
           ''t1'' ''d1''))) \<noteq> [''pending'']"
  by (simp add: admin_approve_def write_activation_def update_activation_def matches_key_def
      remove_spaces_def caption_edit_def truthy_str_def)


section \<open>Deciding on an activation that is not in the store\<close>

text \<open>
  Claim C3, as amended. When no record matches (email, app, mobile),
  \<open>update_activation\<close> returns \<open>False\<close> and the store stays as it was; both decision
  handlers drop that result, so the store is unchanged and the operator is shown the
  same confirmation as after a decision that found its record. No error is shown.
\<close>

theorem resolve_missing:
  "\<forall>act\<in>set store. \<not> matches_key email app mobile act \<Longrightarrow>
     update_activation store email app mobile status reason ts = (False, store)
     \<and> (split_on CHR ''_'' data = [p, email, app, mobile] \<longrightarrow>
          d_store (admin_approve data ev ts store) = store
          \<and> d_reply (admin_approve data ev ts store) = ApprovedActivation email app mobile)
     \<and> (split_on CHR ''_'' data = p # reason_id # email # app # mobile # rest \<longrightarrow>
          d_store (process_rejection data ev ts store) = store
          \<and> d_reply (process_rejection data ev ts store) =
              DecidedActivation (rejection_status app reason_id) email app mobile
                (reasons_get reason_id ''Unknown reason''))"
proof (intro conjI impI)
  assume none: "\<forall>act\<in>set store. \<not> matches_key email app mobile act"
  show "update_activation store email app mobile status reason ts = (False, store)"
    using none by (rule update_activation_none)
next
  assume none: "\<forall>act\<in>set store. \<not> matches_key email app mobile act"
    and sp: "split_on CHR ''_'' data = [p, email, app, mobile]"
  show "d_store (admin_approve data ev ts store) = store"
    using admin_approve_parts [OF sp, of ev ts store]
    by (simp add: update_activation_none [OF none])
  show "d_reply (admin_approve data ev ts store) = ApprovedActivation email app mobile"
    using admin_approve_parts [OF sp, of ev ts store] by simp
next
  assume none: "\<forall>act\<in>set store. \<not> matches_key email app mobile act"
    and sp: "split_on CHR ''_'' data = p # reason_id # email # app # mobile # rest"
  show "d_store (process_rejection data ev ts store) = store"
    using process_rejection_parts [OF sp, of ev ts store]
    by (simp add: update_activation_none [OF none])
  show "d_reply (process_rejection data ev ts store) =
      DecidedActivation (rejection_status app reason_id) email app mobile
        (reasons_get reason_id ''Unknown reason'')"
    using process_rejection_parts [OF sp, of ev ts store] by simp
qed

theorem resolve_missing_witness:
  "update_activation
     [\<lparr>a_email = ''c@d.com'', a_mobile = ''9876543210'', a_app = ''upstox'',
       a_status = ''pending'', a_reason = ''pending'', a_timestamp = ''t0'',
       a_submission_date = ''d0'', a_message_id = None\<rparr>]
     ''a@b.com'' ''upstox'' ''9876543210'' ''approved'' ''0'' ''t1'' =
     (False,
      [\<lparr>a_email = ''c@d.com'', a_mobile = ''9876543210'', a_app = ''upstox'',
        a_status = ''pending'', a_reason = ''pending'', a_timestamp = ''t0'',
        a_submission_date = ''d0'', a_message_id = None\<rparr>])
   \<and> d_store (admin_approve ''approve_a@b.com_upstox_9876543210''
        \<lparr>e_channel_id = Some ''-100'', e_admin_id = Some ''1''\<rparr> ''t1''
        [\<lparr>a_email = ''c@d.com'', a_mobile = ''9876543210'', a_app = ''upstox'',
          a_status = ''pending'', a_reason = ''pending'', a_timestamp = ''t0'',
          a_submission_date = ''d0'', a_message_id = None\<rparr>]) =
      [\<lparr>a_email = ''c@d.com'', a_mobile = ''9876543210'', a_app = ''upstox'',
        a_status = ''pending'', a_reason = ''pending'', a_timestamp = ''t0'',
        a_submission_date = ''d0'', a_message_id = None\<rparr>]
   \<and> d_reply (process_rejection ''reason_79_a@b.com_upstox_9876543210''
        \<lparr>e_channel_id = Some ''-100'', e_admin_id = Some ''1''\<rparr> ''t1''
        [\<lparr>a_email = ''c@d.com'', a_mobile = ''9876543210'', a_app = ''upstox'',
          a_status = ''pending'', a_reason = ''pending'', a_timestamp = ''t0'',
          a_submission_date = ''d0'', a_message_id = None\<rparr>]) =
      DecidedActivation ''rejected'' ''a@b.com'' ''upstox'' ''9876543210''
        ''Fraud Detected - Fraud detected, account not showing''"
  using resolve_missing [of
      "[\<lparr>a_email = ''c@d.com'', a_mobile = ''9876543210'', a_app = ''upstox'',
         a_status = ''pending'', a_reason = ''pending'', a_timestamp = ''t0'',
         a_submission_date = ''d0'', a_message_id = None\<rparr>]"
      "''a@b.com''" "''upstox''" "''9876543210''" "''approved''" "''0''"
      "''t1''" "''approve_a@b.com_upstox_9876543210''" "''approve''"
      "\<lparr>e_channel_id = Some ''-100'', e_admin_id = Some ''1''\<rparr>"]
    resolve_missing [of
      "[\<lparr>a_email = ''c@d.com'', a_mobile = ''9876543210'', a_app = ''upstox'',
         a_status = ''pending'', a_reason = ''pending'', a_timestamp = ''t0'',
         a_submission_date = ''d0'', a_message_id = None\<rparr>]"
      "''a@b.com''" "''upstox''" "''9876543210''" "''approved''" "''0''"
      "''t1''" "''reason_79_a@b.com_upstox_9876543210''" "''reason''"
      "\<lparr>e_channel_id = Some ''-100'', e_admin_id = Some ''1''\<rparr>" "''79''" "[]"]
  by (simp add: matches_key_def remove_spaces_def rejection_status_def reasons_get_def
      REJECTION_REASONS_def)

theorem missing_not_surfaced_counterexample:
  "fst (update_activation [] ''a@b.com'' ''upstox'' ''9876543210'' ''approved'' ''0'' ''t1'') = False
   \<and> d_reply (admin_approve ''approve_a@b.com_upstox_9876543210''
        \<lparr>e_channel_id = Some ''-100'', e_admin_id = Some ''1''\<rparr> ''t1'' []) =
       ApprovedActivation ''a@b.com'' ''upstox'' ''9876543210''
   \<and> d_reply (admin_approve ''approve_a@b.com_upstox_9876543210''
        \<lparr>e_channel_id = Some ''-100'', e_admin_id = Some ''1''\<rparr> ''t1'' []) \<noteq>
       AnswerFailed ''Failed to process approval''"
  by (simp add: admin_approve_def update_activation_def)

section \<open>The override for angelone\<close>

text \<open>
  Claim C4, as amended. A decision that carries a reason code (the reason buttons, handled
  by \<open>process_rejection\<close>) on an activation that is in the store sets the status of the
  first matching record to \<open>''approved''\<close> exactly when the app is \<open>''angelone''\<close> and
  the code is \<open>''nt''\<close>; for every other app and for every other code, known or not, it
  sets \<open>''rejected''\<close>. The plain Reject button carries no reason code and sets nothing:
  \<open>admin_reject\<close> only shows the reasons, the store is left as it was.
\<close>

theorem rejection_override:
  "split_on CHR ''_'' data = p # reason_id # email # app # mobile # rest \<Longrightarrow>
   list_ex (matches_key email app mobile) store \<Longrightarrow>
     (\<exists>r. find (matches_key email app mobile) (d_store (process_rejection data ev ts store)) = Some r
          \<and> a_status r = (if app = ''angelone'' \<and> reason_id = ''nt'' then ''approved''
                           else ''rejected'')
          \<and> (a_status r = ''approved'' \<longleftrightarrow> app = ''angelone'' \<and> reason_id = ''nt'')
          \<and> (app \<noteq> ''angelone'' \<longrightarrow> a_status r = ''rejected'')
          \<and> a_reason r = reason_id)
     \<and> d_store (admin_reject data2 store) = store"
proof -
  assume sp: "split_on CHR ''_'' data = p # reason_id # email # app # mobile # rest"
    and ex: "list_ex (matches_key email app mobile) store"
  from update_activation_found [OF ex, of "rejection_status app reason_id" reason_id ts]
  obtain r where r: "find (matches_key email app mobile)
        (snd (update_activation store email app mobile (rejection_status app reason_id)
                reason_id ts)) = Some r"
      "a_status r = rejection_status app reason_id" "a_reason r = reason_id"
    by blast
  have st: "d_store (process_rejection data ev ts store) =
      snd (update_activation store email app mobile (rejection_status app reason_id) reason_id ts)"
    using process_rejection_parts [OF sp, of ev ts store] by simp
  have "find (matches_key email app mobile) (d_store (process_rejection data ev ts store)) = Some r"
    by (simp only: st r(1))
  moreover have "a_status r = (if app = ''angelone'' \<and> reason_id = ''nt'' then ''approved''
                           else ''rejected'')"
    by (simp add: r(2) rejection_status_def)
  moreover have "a_status r = ''approved'' \<longleftrightarrow> app = ''angelone'' \<and> reason_id = ''nt''"
    by (simp add: r(2) rejection_status_def)
  moreover have "app \<noteq> ''angelone'' \<longrightarrow> a_status r = ''rejected''"
    by (simp add: r(2) rejection_status_def)
  ultimately show ?thesis
    using r(3) admin_reject_store [of data2 store] by blast
qed

theorem rejection_override_witness:
  "(\<exists>r. find (matches_key ''a@b.com'' ''angelone'' ''9876543210'')
      (d_store (process_rejection ''reason_nt_a@b.com_angelone_9876543210''
         \<lparr>e_channel_id = None, e_admin_id = None\<rparr> ''t2''
         [\<lparr>a_email = ''a@b.com'', a_mobile = ''9876543210'', a_app = ''angelone'',
           a_status = ''pending'', a_reason = ''pending'', a_timestamp = ''t1'',
           a_submission_date = ''d1'', a_message_id = None\<rparr>])) = Some r
      \<and> a_status r = ''approved'' \<and> a_reason r = ''nt'')"
  using rejection_override [of "''reason_nt_a@b.com_angelone_9876543210''" "''reason''" "''nt''"
      "''a@b.com''" "''angelone''" "''9876543210''" "[]"
      "[\<lparr>a_email = ''a@b.com'', a_mobile = ''9876543210'', a_app = ''angelone'',
           a_status = ''pending'', a_reason = ''pending'', a_timestamp = ''t1'',
           a_submission_date = ''d1'', a_message_id = None\<rparr>]"
      "\<lparr>e_channel_id = None, e_admin_id = None\<rparr>" "''t2''"]
  by (simp add: matches_key_def remove_spaces_def)

theorem plain_reject_counterexample:
  "map a_status
     (d_store (admin_reject ''reject_a@b.com_upstox_9876543210''
        [\<lparr>a_email = ''a@b.com'', a_mobile = ''9876543210'', a_app = ''upstox'',
          a_status = ''pending'', a_reason = ''pending'', a_timestamp = ''t1'',
          a_submission_date = ''d1'', a_message_id = None\<rparr>])) = [''pending'']
   \<and> d_reply (admin_reject ''reject_a@b.com_upstox_9876543210''
        [\<lparr>a_email = ''a@b.com'', a_mobile = ''9876543210'', a_app = ''upstox'',
          a_status = ''pending'', a_reason = ''pending'', a_timestamp = ''t1'',
          a_submission_date = ''d1'', a_message_id = None\<rparr>]) =
       ReasonMenu ''upstox''
         [''reason_77_a@b.com_upstox_9876543210'', ''reason_78_a@b.com_upstox_9876543210'',
          ''reason_79_a@b.com_upstox_9876543210'', ''reason_80_a@b.com_upstox_9876543210'',
          ''reason_81_a@b.com_upstox_9876543210'']"
  by (simp add: admin_reject_def reason_buttons_def reason_data_def)


section \<open>Rendering a reason code\<close>

lemma catalog_keys:
  "map_of REJECTION_REASONS code = None \<longleftrightarrow>
     code \<notin> set [''77'', ''78'', ''79'', ''80'', ''81'', ''nt'']"
  by (simp add: REJECTION_REASONS_def)

lemma first_word_dated:
  "has_date act \<Longrightarrow>
     first_word (a_submission_date act) =
       Inr (takeWhile (\<lambda>x. \<not> isspace x) (dropWhile isspace (a_submission_date act)))"
  by (simp add: has_date_def first_word_def split: list.splits)

lemma first_word_blank:
  "\<not> has_date act \<Longrightarrow> first_word (a_submission_date act) = Inl IndexError"
proof -
  assume "\<not> has_date act"
  then have e: "dropWhile isspace (a_submission_date act) = []"
    unfolding has_date_def by blast
  show ?thesis
    unfolding first_word_def by (simp only: e list.case)
qed

lemma status_rows_dated:
  "\<forall>act\<in>set acts. has_date act \<Longrightarrow>
     status_rows acts =
       Inr (map (\<lambda>act. \<lparr>sr_app = a_app act, sr_mobile = a_mobile act,
                         sr_status = a_status act,
                         sr_reason = reasons_get (a_reason act) (a_reason act),
                         sr_date = takeWhile (\<lambda>x. \<not> isspace x)
                                     (dropWhile isspace (a_submission_date act))\<rparr>)
              acts)"
  by (induction acts) (simp_all add: first_word_dated)

lemma status_rows_blank:
  "\<exists>act\<in>set acts. \<not> has_date act \<Longrightarrow> status_rows acts = Inl IndexError"
proof (induction acts)
  case Nil
  then show ?case by simp
next
  case (Cons act acts)
  show ?case
  proof (cases "has_date act")
    case False
    then show ?thesis by (simp add: first_word_blank)
  next
    case True
    with Cons.prems have "\<exists>a\<in>set acts. \<not> has_date a" by auto
    then have "status_rows acts = Inl IndexError" by (rule Cons.IH)
    then show ?thesis by (simp add: first_word_dated [OF True])
  qed
qed

lemma write_activation_keeps_dates:
  "\<forall>act\<in>set store. has_date act \<Longrightarrow> dropWhile isspace sd \<noteq> [] \<Longrightarrow>
     \<forall>act\<in>set (write_activation store email app mobile status reason ts sd). has_date act"
  by (simp add: write_activation_def has_date_def)

lemma update_loop_keeps_dates:
  "map a_submission_date (snd (update_loop email app mobile status reason ts store)) =
     map a_submission_date store"
  by (induction store) (auto split: prod.splits)

lemma update_activation_keeps_dates:
  "\<forall>act\<in>set store. has_date act \<Longrightarrow>
     \<forall>act\<in>set (snd (update_activation store email app mobile status reason ts)). has_date act"
proof -
  assume d: "\<forall>act\<in>set store. has_date act"
  have m: "map a_submission_date (snd (update_activation store email app mobile status reason ts)) =
      map a_submission_date store"
    using update_loop_keeps_dates [of email app mobile status reason ts store]
    by (cases "update_loop email app mobile status reason ts store")
       (auto simp: update_activation_def)
  have "\<forall>x\<in>set (map a_submission_date store). dropWhile isspace x \<noteq> []"
    using d by (simp add: has_date_def)
  then have "\<forall>x\<in>set (map a_submission_date
      (snd (update_activation store email app mobile status reason ts))). dropWhile isspace x \<noteq> []"
    by (simp only: m)
  then show ?thesis
    by (simp add: has_date_def)
qed

text \<open>
  Claim C9, as amended. Let every stored activation of the session's email carry a
  submission date with at least one word, as every record written by
  \<open>write_activation\<close> does. Then the status view (\<open>activation_status\<close>) shows, for
  each of these activations, the catalog text when the stored reason is a code of the
  catalog and the stored reason itself otherwise; a record of that email with a blank
  date makes the view raise \<open>IndexError\<close>, whatever the reasons are. The operator's
  view after a decision with a reason code (\<open>process_rejection\<close>) shows the catalog
  text for a code of the catalog and the fixed text \<open>''Unknown reason''\<close> for any
  other code; the code is not passed through there. The catalog has the six codes 77,
  78, 79, 80, 81 and nt.
\<close>

theorem reason_rendering:
  "(s_email sess = Some email \<and> email \<noteq> []
      \<and> (\<forall>act\<in>set store. a_email act = email \<longrightarrow> has_date act) \<longrightarrow>
      activation_status sess store =
        Inr (map (\<lambda>act. \<lparr>sr_app = a_app act, sr_mobile = a_mobile act,
                          sr_status = a_status act,
                          sr_reason = (case map_of REJECTION_REASONS (a_reason act) of
                                         Some t \<Rightarrow> t
                                       | None \<Rightarrow> a_reason act),
                          sr_date = takeWhile (\<lambda>x. \<not> isspace x)
                                      (dropWhile isspace (a_submission_date act))\<rparr>)
               (filter (\<lambda>act. a_email act = email) store)))
   \<and> (s_email sess = Some email \<and> email \<noteq> []
      \<and> (\<exists>act\<in>set store. a_email act = email \<and> \<not> has_date act) \<longrightarrow>
      activation_status sess store = Inl IndexError)
   \<and> (split_on CHR ''_'' data = p # reason_id # email2 # app # mobile # rest \<longrightarrow>
        d_reply (process_rejection data ev ts store) =
          DecidedActivation (rejection_status app reason_id) email2 app mobile
            (case map_of REJECTION_REASONS reason_id of
               Some t \<Rightarrow> t
             | None \<Rightarrow> ''Unknown reason''))
   \<and> (map_of REJECTION_REASONS code = None \<longleftrightarrow>
        code \<notin> set [''77'', ''78'', ''79'', ''80'', ''81'', ''nt''])"
proof (intro conjI impI)
  assume h: "s_email sess = Some email \<and> email \<noteq> []
      \<and> (\<forall>act\<in>set store. a_email act = email \<longrightarrow> has_date act)"
  then have d: "\<forall>act\<in>set (filter (\<lambda>act. a_email act = email) store). has_date act"
    by simp
  show "activation_status sess store =
        Inr (map (\<lambda>act. \<lparr>sr_app = a_app act, sr_mobile = a_mobile act,
                          sr_status = a_status act,
                          sr_reason = (case map_of REJECTION_REASONS (a_reason act) of
                                         Some t \<Rightarrow> t
                                       | None \<Rightarrow> a_reason act),
                          sr_date = takeWhile (\<lambda>x. \<not> isspace x)
                                      (dropWhile isspace (a_submission_date act))\<rparr>)
               (filter (\<lambda>act. a_email act = email) store))"
    using h status_rows_dated [OF d]
    by (simp add: activation_status_def read_activations_email reasons_get_def)
next
  assume h: "s_email sess = Some email \<and> email \<noteq> []
      \<and> (\<exists>act\<in>set store. a_email act = email \<and> \<not> has_date act)"
  then have "\<exists>act\<in>set (filter (\<lambda>act. a_email act = email) store). \<not> has_date act"
    by auto
  then have "status_rows (filter (\<lambda>act. a_email act = email) store) = Inl IndexError"
    by (rule status_rows_blank)
  then show "activation_status sess store = Inl IndexError"
    using h by (simp add: activation_status_def read_activations_email)
next
  assume sp: "split_on CHR ''_'' data = p # reason_id # email2 # app # mobile # rest"
  show "d_reply (process_rejection data ev ts store) =
          DecidedActivation (rejection_status app reason_id) email2 app mobile
            (case map_of REJECTION_REASONS reason_id of
               Some t \<Rightarrow> t
             | None \<Rightarrow> ''Unknown reason'')"
    using process_rejection_parts [OF sp, of ev ts store] by (simp add: reasons_get_def)
next
  show "map_of REJECTION_REASONS code = None \<longleftrightarrow>
        code \<notin> set [''77'', ''78'', ''79'', ''80'', ''81'', ''nt'']"
    by (rule catalog_keys)
qed

theorem reason_rendering_witness:
  "activation_status
     \<lparr>s_chat_id = Some 7, s_email = Some ''a@b.com'', s_name = Some ''A'',
      s_selected_app = None\<rparr>
     [\<lparr>a_email = ''a@b.com'', a_mobile = ''9876543210'', a_app = ''upstox'',
       a_status = ''rejected'', a_reason = ''zz'', a_timestamp = ''t1'',
       a_submission_date = ''2024-05-01 10:00:00'', a_message_id = None\<rparr>,
      \<lparr>a_email = ''a@b.com'', a_mobile = ''9876543211'', a_app = ''angelone'',
       a_status = ''approved'', a_reason = ''nt'', a_timestamp = ''t2'',
       a_submission_date = ''2024-05-02 11:30:00'', a_message_id = None\<rparr>] =
   Inr [\<lparr>sr_app = ''upstox'', sr_mobile = ''9876543210'', sr_status = ''rejected'',
         sr_reason = ''zz'', sr_date = ''2024-05-01''\<rparr>,
        \<lparr>sr_app = ''angelone'', sr_mobile = ''9876543211'', sr_status = ''approved'',
         sr_reason = ''Non Trade Approved'', sr_date = ''2024-05-02''\<rparr>]
   \<and> activation_status
     \<lparr>s_chat_id = Some 7, s_email = Some ''a@b.com'', s_name = Some ''A'',
      s_selected_app = None\<rparr>
     [\<lparr>a_email = ''a@b.com'', a_mobile = ''9876543210'', a_app = ''upstox'',
       a_status = ''rejected'', a_reason = ''77'', a_timestamp = ''t1'',
       a_submission_date = '' '', a_message_id = None\<rparr>] = Inl IndexError
   \<and> d_reply (process_rejection ''reason_81_a@b.com_upstox_9876543210''
        \<lparr>e_channel_id = None, e_admin_id = None\<rparr> ''t3''
        [\<lparr>a_email = ''a@b.com'', a_mobile = ''9876543210'', a_app = ''upstox'',
          a_status = ''rejected'', a_reason = ''zz'', a_timestamp = ''t1'',
          a_submission_date = ''2024-05-01 10:00:00'', a_message_id = None\<rparr>,
         \<lparr>a_email = ''a@b.com'', a_mobile = ''9876543211'', a_app = ''angelone'',
          a_status = ''approved'', a_reason = ''nt'', a_timestamp = ''t2'',
          a_submission_date = ''2024-05-02 11:30:00'', a_message_id = None\<rparr>]) =
       DecidedActivation ''rejected'' ''a@b.com'' ''upstox'' ''9876543210''
         ''Late Submission - Activation completed after deadline''"
proof -
  let ?sess = "\<lparr>s_chat_id = Some 7, s_email = Some ''a@b.com'', s_name = Some ''A'',
      s_selected_app = None\<rparr>"
  let ?store = "[\<lparr>a_email = ''a@b.com'', a_mobile = ''9876543210'', a_app = ''upstox'',
       a_status = ''rejected'', a_reason = ''zz'', a_timestamp = ''t1'',
       a_submission_date = ''2024-05-01 10:00:00'', a_message_id = None\<rparr>,
      \<lparr>a_email = ''a@b.com'', a_mobile = ''9876543211'', a_app = ''angelone'',
       a_status = ''approved'', a_reason = ''nt'', a_timestamp = ''t2'',
       a_submission_date = ''2024-05-02 11:30:00'', a_message_id = None\<rparr>]"
  let ?blank = "[\<lparr>a_email = ''a@b.com'', a_mobile = ''9876543210'', a_app = ''upstox'',
       a_status = ''rejected'', a_reason = ''77'', a_timestamp = ''t1'',
       a_submission_date = '' '', a_message_id = None\<rparr>]"
  from reason_rendering [where sess = ?sess and email = "''a@b.com''" and store = ?store
      and data = "''reason_81_a@b.com_upstox_9876543210''" and p = "''reason''"
      and reason_id = "''81''" and ?email2.0 = "''a@b.com''" and app = "''upstox''"
      and mobile = "''9876543210''" and rest = "[]"
      and ev = "\<lparr>e_channel_id = None, e_admin_id = None\<rparr>" and ts = "''t3''"]
  have rows: "activation_status ?sess ?store =
      Inr [\<lparr>sr_app = ''upstox'', sr_mobile = ''9876543210'', sr_status = ''rejected'',
            sr_reason = ''zz'', sr_date = ''2024-05-01''\<rparr>,
           \<lparr>sr_app = ''angelone'', sr_mobile = ''9876543211'', sr_status = ''approved'',
            sr_reason = ''Non Trade Approved'', sr_date = ''2024-05-02''\<rparr>]"
    and shown: "d_reply (process_rejection ''reason_81_a@b.com_upstox_9876543210''
        \<lparr>e_channel_id = None, e_admin_id = None\<rparr> ''t3'' ?store) =
       DecidedActivation ''rejected'' ''a@b.com'' ''upstox'' ''9876543210''
         ''Late Submission - Activation completed after deadline''"
    by (simp_all add: REJECTION_REASONS_def rejection_status_def has_date_def isspace_def)
  from reason_rendering [where sess = ?sess and email = "''a@b.com''" and store = ?blank]
  have blank: "activation_status ?sess ?blank = Inl IndexError"
    by (simp add: has_date_def isspace_def)
  show ?thesis
    using rows blank shown by simp
qed

theorem unknown_reason_counterexample:
  "d_reply (process_rejection ''reason_zz_a@b.com_upstox_9876543210''
      \<lparr>e_channel_id = None, e_admin_id = None\<rparr> ''t3'' []) =
     DecidedActivation ''rejected'' ''a@b.com'' ''upstox'' ''9876543210'' ''Unknown reason''
   \<and> d_reply (process_rejection ''reason_zz_a@b.com_upstox_9876543210''
      \<lparr>e_channel_id = None, e_admin_id = None\<rparr> ''t3'' []) \<noteq>
     DecidedActivation ''rejected'' ''a@b.com'' ''upstox'' ''9876543210'' ''zz''"
  by (simp add: process_rejection_def reasons_get_def REJECTION_REASONS_def
      rejection_status_def Let_def)

section \<open>The decision reference of an email with an underscore\<close>

text \<open>
  Claim C10 fails on the code. The email check accepts \<open>a_b@c.com\<close>, the decision
  references are built by joining with underscores, and the handlers split them on
  every underscore: the Approve reference has five parts where \<open>admin_approve\<close> unpacks
  four, so it answers with a failure and approves nothing; the reason reference is read
  as email \<open>a\<close>, app \<open>b@c.com\<close>, mobile \<open>angelone\<close>, which matches no record, so
  nothing is rejected either.
\<close>

theorem underscore_email_decision:
  "match_anchored email_pattern ''a_b@c.com''
   \<and> decision_data ''approve'' ''a_b@c.com'' ''angelone'' ''9876543210'' \<in>
       set (review_keyboard ''a_b@c.com'' ''angelone'' ''9876543210'')
   \<and> split_on CHR ''_'' (decision_data ''approve'' ''a_b@c.com'' ''angelone'' ''9876543210'') =
       [''approve'', ''a'', ''b@c.com'', ''angelone'', ''9876543210'']
   \<and> admin_approve (decision_data ''approve'' ''a_b@c.com'' ''angelone'' ''9876543210'')
        \<lparr>e_channel_id = None, e_admin_id = None\<rparr> ''t2''
        [\<lparr>a_email = ''a_b@c.com'', a_mobile = ''9876543210'', a_app = ''angelone'',
          a_status = ''pending'', a_reason = ''pending'', a_timestamp = ''t1'',
          a_submission_date = ''d1'', a_message_id = None\<rparr>] =
       \<lparr>d_store =
          [\<lparr>a_email = ''a_b@c.com'', a_mobile = ''9876543210'', a_app = ''angelone'',
            a_status = ''pending'', a_reason = ''pending'', a_timestamp = ''t1'',
            a_submission_date = ''d1'', a_message_id = None\<rparr>],
        d_reply = AnswerFailed ''Failed to process approval'', d_caption_edit = None\<rparr>
   \<and> process_rejection (reason_data ''77'' ''a_b@c.com'' ''angelone'' ''9876543210'')
        \<lparr>e_channel_id = None, e_admin_id = None\<rparr> ''t2''
        [\<lparr>a_email = ''a_b@c.com'', a_mobile = ''9876543210'', a_app = ''angelone'',
          a_status = ''pending'', a_reason = ''pending'', a_timestamp = ''t1'',
          a_submission_date = ''d1'', a_message_id = None\<rparr>] =
       \<lparr>d_store =
          [\<lparr>a_email = ''a_b@c.com'', a_mobile = ''9876543210'', a_app = ''angelone'',
            a_status = ''pending'', a_reason = ''pending'', a_timestamp = ''t1'',
            a_submission_date = ''d1'', a_message_id = None\<rparr>],
        d_reply = DecidedActivation ''rejected'' ''a'' ''b@c.com'' ''angelone''
            ''Incorrect Proof - Video/screenshot is incorrect, send correct recording showing process'',
        d_caption_edit = None\<rparr>"
proof (intro conjI)
  show "match_anchored email_pattern ''a_b@c.com''"
    by (simp add: match_anchored_def email_pattern_def at_least_one_def local_class_def
        domain_class_def ascii_alpha_def ascii_digit_def)
  show "decision_data ''approve'' ''a_b@c.com'' ''angelone'' ''9876543210'' \<in>
       set (review_keyboard ''a_b@c.com'' ''angelone'' ''9876543210'')"
    by (simp add: review_keyboard_def)
  show sp: "split_on CHR ''_'' (decision_data ''approve'' ''a_b@c.com'' ''angelone'' ''9876543210'') =
       [''approve'', ''a'', ''b@c.com'', ''angelone'', ''9876543210'']"
    by (simp add: decision_data_def)
  show "admin_approve (decision_data ''approve'' ''a_b@c.com'' ''angelone'' ''9876543210'')
        \<lparr>e_channel_id = None, e_admin_id = None\<rparr> ''t2''
        [\<lparr>a_email = ''a_b@c.com'', a_mobile = ''9876543210'', a_app = ''angelone'',
          a_status = ''pending'', a_reason = ''pending'', a_timestamp = ''t1'',
          a_submission_date = ''d1'', a_message_id = None\<rparr>] =
       \<lparr>d_store =
          [\<lparr>a_email = ''a_b@c.com'', a_mobile = ''9876543210'', a_app = ''angelone'',
            a_status = ''pending'', a_reason = ''pending'', a_timestamp = ''t1'',
            a_submission_date = ''d1'', a_message_id = None\<rparr>],
        d_reply = AnswerFailed ''Failed to process approval'', d_caption_edit = None\<rparr>"
    by (simp add: admin_approve_def sp)
  have sr: "split_on CHR ''_'' (reason_data ''77'' ''a_b@c.com'' ''angelone'' ''9876543210'') =
       [''reason'', ''77'', ''a'', ''b@c.com'', ''angelone'', ''9876543210'']"
    by (simp add: reason_data_def)
  show "process_rejection (reason_data ''77'' ''a_b@c.com'' ''angelone'' ''9876543210'')
        \<lparr>e_channel_id = None, e_admin_id = None\<rparr> ''t2''
        [\<lparr>a_email = ''a_b@c.com'', a_mobile = ''9876543210'', a_app = ''angelone'',
          a_status = ''pending'', a_reason = ''pending'', a_timestamp = ''t1'',
          a_submission_date = ''d1'', a_message_id = None\<rparr>] =
       \<lparr>d_store =
          [\<lparr>a_email = ''a_b@c.com'', a_mobile = ''9876543210'', a_app = ''angelone'',
            a_status = ''pending'', a_reason = ''pending'', a_timestamp = ''t1'',
            a_submission_date = ''d1'', a_message_id = None\<rparr>],
        d_reply = DecidedActivation ''rejected'' ''a'' ''b@c.com'' ''angelone''
            ''Incorrect Proof - Video/screenshot is incorrect, send correct recording showing process'',
        d_caption_edit = None\<rparr>"
    by (simp add: process_rejection_def sr Let_def reasons_get_def REJECTION_REASONS_def
        rejection_status_def update_activation_def matches_key_def caption_edit_def
        truthy_str_def)
qed


section \<open>Facts about the user store\<close>

lemma add_user_loop_none:
  "\<forall>u\<in>set users. lower (u_email u) = lower email \<longrightarrow> truthy_int (u_chat_id u) \<Longrightarrow>
     add_user_loop email chat_id users = None"
  by (induction users) auto

lemma add_user_loop_no_chat:
  "\<not> truthy_int chat_id \<Longrightarrow> add_user_loop email chat_id users = None"
  by (induction users) auto

lemma add_user_loop_first:
  "\<forall>v\<in>set pre. lower (u_email v) = lower email \<longrightarrow> truthy_int (u_chat_id v) \<Longrightarrow>
   lower (u_email u) = lower email \<Longrightarrow> \<not> truthy_int (u_chat_id u) \<Longrightarrow> truthy_int chat_id \<Longrightarrow>
     add_user_loop email chat_id (pre @ u # post) = Some (pre @ u\<lparr>u_chat_id := chat_id\<rparr> # post)"
  by (induction pre) auto

section \<open>Registering an email twice\<close>

text \<open>
  Claim C5. Let the store hold exactly one record \<open>u\<close> for the email, compared without
  regard to case (emails are unique in the store). A channel id is an identifier that
  Python counts as true, so not \<open>None\<close> and not \<open>0\<close>. If \<open>u\<close> has a channel id,
  \<open>add_user\<close> returns "User already exists" and the store is unchanged. If \<open>u\<close> has
  none and one is supplied, \<open>add_user\<close> returns "User chat_id updated" and the store
  differs in the channel id of \<open>u\<close> only, so password and name stay; registering the
  email again after that returns "User already exists" and changes nothing.
\<close>

theorem add_user_existing:
  "lower (u_email u) = lower email \<Longrightarrow>
   \<forall>v\<in>set (pre @ post). lower (u_email v) \<noteq> lower email \<Longrightarrow>
     (truthy_int (u_chat_id u) \<longrightarrow>
        add_user (pre @ u # post) email password name chat_id ts =
          ((False, ''User already exists''), pre @ u # post))
     \<and> (\<not> truthy_int (u_chat_id u) \<and> truthy_int chat_id \<longrightarrow>
          add_user (pre @ u # post) email password name chat_id ts =
            ((True, ''User chat_id updated''), pre @ u\<lparr>u_chat_id := chat_id\<rparr> # post)
          \<and> u_password (u\<lparr>u_chat_id := chat_id\<rparr>) = u_password u
          \<and> u_name (u\<lparr>u_chat_id := chat_id\<rparr>) = u_name u
          \<and> add_user (pre @ u\<lparr>u_chat_id := chat_id\<rparr> # post) email password2 name2 chat_id2 ts2 =
              ((False, ''User already exists''), pre @ u\<lparr>u_chat_id := chat_id\<rparr> # post))"
proof (intro conjI impI)
  assume e: "lower (u_email u) = lower email"
    and uniq: "\<forall>v\<in>set (pre @ post). lower (u_email v) \<noteq> lower email"
  have ex: "list_ex (\<lambda>user. lower (u_email user) = lower email) (pre @ w # post)"
    if "lower (u_email w) = lower email" for w
    using that by (simp add: list_ex_iff)
  {
    assume t: "truthy_int (u_chat_id u)"
    have "\<forall>v\<in>set (pre @ u # post). lower (u_email v) = lower email \<longrightarrow> truthy_int (u_chat_id v)"
      using uniq t by auto
    then have "add_user_loop email chat_id (pre @ u # post) = None"
      by (rule add_user_loop_none)
    then show "add_user (pre @ u # post) email password name chat_id ts =
          ((False, ''User already exists''), pre @ u # post)"
      using ex [OF e] by (simp add: add_user_def)
  }
  {
    assume t: "\<not> truthy_int (u_chat_id u) \<and> truthy_int chat_id"
    have p: "\<forall>v\<in>set pre. lower (u_email v) = lower email \<longrightarrow> truthy_int (u_chat_id v)"
      using uniq by auto
    have "add_user_loop email chat_id (pre @ u # post) = Some (pre @ u\<lparr>u_chat_id := chat_id\<rparr> # post)"
      using p e t by (intro add_user_loop_first) simp_all
    then show "add_user (pre @ u # post) email password name chat_id ts =
            ((True, ''User chat_id updated''), pre @ u\<lparr>u_chat_id := chat_id\<rparr> # post)"
      using ex [OF e] by (simp add: add_user_def)
    show "u_password (u\<lparr>u_chat_id := chat_id\<rparr>) = u_password u" by simp
    show "u_name (u\<lparr>u_chat_id := chat_id\<rparr>) = u_name u" by simp
    have e2: "lower (u_email (u\<lparr>u_chat_id := chat_id\<rparr>)) = lower email"
      using e by simp
    have "\<forall>v\<in>set (pre @ u\<lparr>u_chat_id := chat_id\<rparr> # post).
        lower (u_email v) = lower email \<longrightarrow> truthy_int (u_chat_id v)"
      using uniq t by auto
    then have "add_user_loop email chat_id2 (pre @ u\<lparr>u_chat_id := chat_id\<rparr> # post) = None"
      by (rule add_user_loop_none)
    then show "add_user (pre @ u\<lparr>u_chat_id := chat_id\<rparr> # post) email password2 name2 chat_id2 ts2 =
              ((False, ''User already exists''), pre @ u\<lparr>u_chat_id := chat_id\<rparr> # post)"
      using ex [OF e2] by (simp add: add_user_def)
  }
qed


theorem add_user_existing_witness:
  "add_user
     [\<lparr>u_email = ''p@q.com'', u_password = ''pw0'', u_name = ''P'', u_chat_id = Some 5,
       u_created_at = ''t0''\<rparr>,
      \<lparr>u_email = ''x@y.com'', u_password = ''pw1'', u_name = ''X'', u_chat_id = None,
       u_created_at = ''t1''\<rparr>]
     ''X@Y.com'' ''pw2'' ''X2'' (Some 42) ''t2'' =
     ((True, ''User chat_id updated''),
      [\<lparr>u_email = ''p@q.com'', u_password = ''pw0'', u_name = ''P'', u_chat_id = Some 5,
        u_created_at = ''t0''\<rparr>,
       \<lparr>u_email = ''x@y.com'', u_password = ''pw1'', u_name = ''X'', u_chat_id = Some 42,
        u_created_at = ''t1''\<rparr>])
   \<and> add_user
     [\<lparr>u_email = ''p@q.com'', u_password = ''pw0'', u_name = ''P'', u_chat_id = Some 5,
       u_created_at = ''t0''\<rparr>,
      \<lparr>u_email = ''x@y.com'', u_password = ''pw1'', u_name = ''X'', u_chat_id = Some 42,
       u_created_at = ''t1''\<rparr>]
     ''X@Y.com'' ''pw3'' ''X3'' (Some 43) ''t3'' =
     ((False, ''User already exists''),
      [\<lparr>u_email = ''p@q.com'', u_password = ''pw0'', u_name = ''P'', u_chat_id = Some 5,
        u_created_at = ''t0''\<rparr>,
       \<lparr>u_email = ''x@y.com'', u_password = ''pw1'', u_name = ''X'', u_chat_id = Some 42,
        u_created_at = ''t1''\<rparr>])"
proof -
  have l: "lower ''X@Y.com'' = ''x@y.com''" "lower ''x@y.com'' = ''x@y.com''"
    "lower ''p@q.com'' = ''p@q.com''"
    by code_simp+
  note w = add_user_existing [of _ "''X@Y.com''"
      "[\<lparr>u_email = ''p@q.com'', u_password = ''pw0'', u_name = ''P'', u_chat_id = Some 5,
         u_created_at = ''t0''\<rparr>]" "[]"]
  from w [of "\<lparr>u_email = ''x@y.com'', u_password = ''pw1'', u_name = ''X'', u_chat_id = None,
               u_created_at = ''t1''\<rparr>" "''pw2''" "''X2''" "Some 42" "''t2''"]
  have first: "add_user
     [\<lparr>u_email = ''p@q.com'', u_password = ''pw0'', u_name = ''P'', u_chat_id = Some 5,
       u_created_at = ''t0''\<rparr>,
      \<lparr>u_email = ''x@y.com'', u_password = ''pw1'', u_name = ''X'', u_chat_id = None,
       u_created_at = ''t1''\<rparr>]
     ''X@Y.com'' ''pw2'' ''X2'' (Some 42) ''t2'' =
     ((True, ''User chat_id updated''),
      [\<lparr>u_email = ''p@q.com'', u_password = ''pw0'', u_name = ''P'', u_chat_id = Some 5,
        u_created_at = ''t0''\<rparr>,
       \<lparr>u_email = ''x@y.com'', u_password = ''pw1'', u_name = ''X'', u_chat_id = Some 42,
        u_created_at = ''t1''\<rparr>])"
    by (simp add: l truthy_int_def)
  from w [of "\<lparr>u_email = ''x@y.com'', u_password = ''pw1'', u_name = ''X'', u_chat_id = Some 42,
               u_created_at = ''t1''\<rparr>" "''pw3''" "''X3''" "Some 43" "''t3''"]
  have second: "add_user
     [\<lparr>u_email = ''p@q.com'', u_password = ''pw0'', u_name = ''P'', u_chat_id = Some 5,
       u_created_at = ''t0''\<rparr>,
      \<lparr>u_email = ''x@y.com'', u_password = ''pw1'', u_name = ''X'', u_chat_id = Some 42,
       u_created_at = ''t1''\<rparr>]
     ''X@Y.com'' ''pw3'' ''X3'' (Some 43) ''t3'' =
     ((False, ''User already exists''),
      [\<lparr>u_email = ''p@q.com'', u_password = ''pw0'', u_name = ''P'', u_chat_id = Some 5,
        u_created_at = ''t0''\<rparr>,
       \<lparr>u_email = ''x@y.com'', u_password = ''pw1'', u_name = ''X'', u_chat_id = Some 42,
        u_created_at = ''t1''\<rparr>])"
    by (simp add: l truthy_int_def)
  show ?thesis using first second by simp
qed


section \<open>Facts about logging in\<close>

lemma find_app:
  "find P (xs @ ys) = (case find P xs of None \<Rightarrow> find P ys | Some x \<Rightarrow> Some x)"
  by (induction xs) auto

lemma find_Some_member: "find P xs = Some x \<Longrightarrow> x \<in> set xs \<and> P x"
  by (induction xs) (auto split: if_splits)

lemma read_emails_fold:
  "fold (\<lambda>user m. m(u_email user \<mapsto>
                        \<lparr>c_name = u_name user, c_password = u_password user,
                         c_chat_id = u_chat_id user\<rparr>)) users m0 e =
     (case find (\<lambda>u. u_email u = e) (rev users) of
        None \<Rightarrow> m0 e
      | Some u \<Rightarrow> Some \<lparr>c_name = u_name u, c_password = u_password u, c_chat_id = u_chat_id u\<rparr>)"
  by (induction users arbitrary: m0) (auto simp: find_app split: option.splits)

lemma read_emails_find:
  "read_emails users e =
     map_option (\<lambda>u. \<lparr>c_name = u_name u, c_password = u_password u, c_chat_id = u_chat_id u\<rparr>)
       (find (\<lambda>u. u_email u = e) (rev users))"
  by (simp add: read_emails_def read_emails_fold split: option.splits)

lemma read_emails_absent:
  "\<forall>u\<in>set users. u_email u \<noteq> e \<Longrightarrow> read_emails users e = None"
  by (simp add: read_emails_find find_None_iff)

lemma read_emails_unique:
  "\<forall>v\<in>set (pre @ post). u_email v \<noteq> u_email u \<Longrightarrow>
     read_emails (pre @ u # post) (u_email u) =
       Some \<lparr>c_name = u_name u, c_password = u_password u, c_chat_id = u_chat_id u\<rparr>"
proof -
  assume n: "\<forall>v\<in>set (pre @ post). u_email v \<noteq> u_email u"
  have "find (\<lambda>v. u_email v = u_email u) (rev post @ u # rev pre) = Some u"
    using n by (intro find_first) auto
  then show ?thesis
    by (simp add: read_emails_find)
qed

lemma bind_chat_id_first:
  "\<forall>v\<in>set pre. u_email v \<noteq> e \<Longrightarrow> u_email u = e \<Longrightarrow>
     bind_chat_id e chat (pre @ u # post) = pre @ u\<lparr>u_chat_id := Some chat\<rparr> # post"
  by (induction pre) auto

lemma email_input_accepts:
  "email_input text sess = (PASSWORD, sess1) \<Longrightarrow>
     sess1 = sess\<lparr>s_email := Some (lower (strip text))\<rparr>
     \<and> match_anchored email_pattern (lower (strip text))"
  by (auto simp: email_input_def Let_def split: if_splits)

lemma distinct_split:
  "distinct (map f (pre @ u # post)) \<Longrightarrow> \<forall>v\<in>set (pre @ post). f v \<noteq> f u"
  by (fastforce simp: image_iff)

lemma read_apps_nonempty: "\<forall>app\<in>set (read_apps file_lines). app \<noteq> []"
  by (auto simp: read_apps_def lower_def)

lemma add_user_loop_emails:
  "add_user_loop email chat_id users = Some users' \<Longrightarrow> map u_email users' = map u_email users"
  by (induction users arbitrary: users') (auto split: if_splits)

lemma add_user_keeps_emails:
  "distinct (map u_email users) \<Longrightarrow> \<forall>u\<in>set users. lower (u_email u) = u_email u \<Longrightarrow>
     distinct (map u_email (snd (add_user users email password name chat_id ts)))
     \<and> (\<forall>u\<in>set (snd (add_user users email password name chat_id ts)).
           lower (u_email u) = u_email u)"
proof -
  assume d: "distinct (map u_email users)"
    and low: "\<forall>u\<in>set users. lower (u_email u) = u_email u"
  show ?thesis
  proof (cases "list_ex (\<lambda>user. lower (u_email user) = lower email) users")
    case True
    show ?thesis
    proof (cases "add_user_loop email chat_id users")
      case None
      with True d low show ?thesis
        by (simp add: add_user_def)
    next
      case (Some users')
      then have m: "map u_email users' = map u_email users"
        by (rule add_user_loop_emails)
      then have "set (map u_email users') = set (map u_email users)"
        by simp
      with low have "\<forall>u\<in>set users'. lower (u_email u) = u_email u"
        by (metis (no_types, lifting) imageE image_eqI list.set_map)
      with True Some d m show ?thesis
        by (simp add: add_user_def)
    qed
  next
    case False
    then have "\<forall>u\<in>set users. u_email u \<noteq> lower email"
      using low by (auto simp: list_ex_iff lower_idem)
    with False d low show ?thesis
      by (auto simp: add_user_def lower_idem)
  qed
qed

section \<open>Logging in\<close>

text \<open>
  Claim C6, as amended. Let the stored emails be pairwise different and lower-case, as
  \<open>add_user\<close> writes them, and let the email step have accepted the entered email
  (stripped and lower-cased, it has the shape of an email). Then the password step
  succeeds exactly when a stored user matches the entered email without regard to case
  and its password equals the entered password with surrounding whitespace stripped;
  the comparison of the stripped password is exact and case-sensitive. On success, a
  matched user without a channel id gets the current chat id as its channel id and
  nothing else changes; with a channel id already bound the store is left as it was.
  Otherwise the session goes back to the email step and the store is unchanged.
\<close>

theorem login:
  "distinct (map u_email users) \<Longrightarrow> \<forall>u\<in>set users. lower (u_email u) = u_email u \<Longrightarrow>
   email_input text_e sess = (PASSWORD, sess1) \<Longrightarrow>
     ((\<exists>s' us'. password_input text_p chat sess1 users = Inr (MAIN_MENU, s', us')) \<longleftrightarrow>
        (\<exists>u\<in>set users. lower (u_email u) = lower (strip text_e) \<and> u_password u = strip text_p))
     \<and> (\<forall>pre u post.
           users = pre @ u # post \<and> lower (u_email u) = lower (strip text_e)
           \<and> u_password u = strip text_p \<longrightarrow>
             password_input text_p chat sess1 users =
               Inr (MAIN_MENU, sess1\<lparr>s_name := Some (u_name u)\<rparr>,
                    if truthy_int (u_chat_id u) then users
                    else pre @ u\<lparr>u_chat_id := Some chat\<rparr> # post))
     \<and> ((\<forall>u\<in>set users. \<not> (lower (u_email u) = lower (strip text_e)
                             \<and> u_password u = strip text_p)) \<longrightarrow>
          password_input text_p chat sess1 users = Inr (EMAIL, sess1, users))"
proof -
  assume d: "distinct (map u_email users)"
    and low: "\<forall>u\<in>set users. lower (u_email u) = u_email u"
    and acc: "email_input text_e sess = (PASSWORD, sess1)"
  let ?e = "lower (strip text_e)"
  have se: "s_email sess1 = Some ?e"
    using email_input_accepts [OF acc] by simp
  have same: "lower (u_email u) = lower (strip text_e) \<longleftrightarrow> u_email u = ?e" if "u \<in> set users" for u
  proof -
    from low that have l: "lower (u_email u) = u_email u"
      by (rule bspec)
    show ?thesis
    proof
      assume "lower (u_email u) = lower (strip text_e)"
      with l show "u_email u = ?e" by simp
    next
      assume "u_email u = ?e"
      then show "lower (u_email u) = lower (strip text_e)"
        by (simp add: lower_idem)
    qed
  qed
  have ok: "password_input text_p chat sess1 users =
               Inr (MAIN_MENU, sess1\<lparr>s_name := Some (u_name u)\<rparr>,
                    if truthy_int (u_chat_id u) then users
                    else pre @ u\<lparr>u_chat_id := Some chat\<rparr> # post)"
    if h: "users = pre @ u # post \<and> lower (u_email u) = lower (strip text_e)
           \<and> u_password u = strip text_p" for pre u post
  proof -
    from h have ue: "u_email u = ?e"
      using same [of u] by simp
    have n: "\<forall>v\<in>set (pre @ post). u_email v \<noteq> u_email u"
      using d h by (intro distinct_split) simp
    have r: "read_emails (pre @ u # post) ?e =
        Some \<lparr>c_name = u_name u, c_password = u_password u, c_chat_id = u_chat_id u\<rparr>"
      using read_emails_unique [OF n] ue by simp
    have b: "bind_chat_id ?e chat (pre @ u # post) = pre @ u\<lparr>u_chat_id := Some chat\<rparr> # post"
      using n ue bind_chat_id_first [of pre ?e u chat post] by simp
    show ?thesis
      using h by (simp add: password_input_def se r b)
  qed
  have bad: "password_input text_p chat sess1 users = Inr (EMAIL, sess1, users)"
    if h: "\<forall>u\<in>set users. \<not> (lower (u_email u) = lower (strip text_e)
                             \<and> u_password u = strip text_p)"
  proof (cases "find (\<lambda>u. u_email u = ?e) (rev users)")
    case None
    then have "read_emails users ?e = None"
      by (simp add: read_emails_find)
    then show ?thesis
      by (simp add: password_input_def se)
  next
    case (Some u)
    from find_Some_member [OF Some] have u: "u \<in> set users" "u_email u = ?e"
      by simp_all
    from h u(1) have "\<not> (lower (u_email u) = lower (strip text_e) \<and> u_password u = strip text_p)"
      by (rule bspec)
    with same [OF u(1)] u(2) have "u_password u \<noteq> strip text_p"
      by simp
    moreover have "read_emails users ?e =
        Some \<lparr>c_name = u_name u, c_password = u_password u, c_chat_id = u_chat_id u\<rparr>"
      using Some by (simp add: read_emails_find)
    ultimately show ?thesis
      by (simp add: password_input_def se)
  qed
  have iff: "(\<exists>s' us'. password_input text_p chat sess1 users = Inr (MAIN_MENU, s', us')) \<longleftrightarrow>
        (\<exists>u\<in>set users. lower (u_email u) = lower (strip text_e) \<and> u_password u = strip text_p)"
  proof
    assume s: "\<exists>s' us'. password_input text_p chat sess1 users = Inr (MAIN_MENU, s', us')"
    show "\<exists>u\<in>set users. lower (u_email u) = lower (strip text_e) \<and> u_password u = strip text_p"
    proof (rule ccontr)
      assume "\<not> (\<exists>u\<in>set users. lower (u_email u) = lower (strip text_e)
                   \<and> u_password u = strip text_p)"
      then have "password_input text_p chat sess1 users = Inr (EMAIL, sess1, users)"
        by (intro bad) simp
      with s show False by simp
    qed
  next
    assume "\<exists>u\<in>set users. lower (u_email u) = lower (strip text_e) \<and> u_password u = strip text_p"
    then obtain u where u: "u \<in> set users" "lower (u_email u) = lower (strip text_e)"
      "u_password u = strip text_p"
      by blast
    from split_list [OF u(1)] obtain pre post where "users = pre @ u # post"
      by blast
    with u ok [of pre u post] show "\<exists>s' us'. password_input text_p chat sess1 users = Inr (MAIN_MENU, s', us')"
      by simp
  qed
  show ?thesis
  proof (intro conjI allI impI)
    show "(\<exists>s' us'. password_input text_p chat sess1 users = Inr (MAIN_MENU, s', us')) \<longleftrightarrow>
        (\<exists>u\<in>set users. lower (u_email u) = lower (strip text_e) \<and> u_password u = strip text_p)"
      by (rule iff)
  next
    fix pre u post
    assume "users = pre @ u # post \<and> lower (u_email u) = lower (strip text_e)
           \<and> u_password u = strip text_p"
    then show "password_input text_p chat sess1 users =
               Inr (MAIN_MENU, sess1\<lparr>s_name := Some (u_name u)\<rparr>,
                    if truthy_int (u_chat_id u) then users
                    else pre @ u\<lparr>u_chat_id := Some chat\<rparr> # post)"
      by (rule ok)
  next
    assume "\<forall>u\<in>set users. \<not> (lower (u_email u) = lower (strip text_e)
                             \<and> u_password u = strip text_p)"
    then show "password_input text_p chat sess1 users = Inr (EMAIL, sess1, users)"
      by (rule bad)
  qed
qed


theorem login_witness:
  "email_input ''A@B.com''
     \<lparr>s_chat_id = Some 7, s_email = None, s_name = None, s_selected_app = None\<rparr> =
     (PASSWORD, \<lparr>s_chat_id = Some 7, s_email = Some ''a@b.com'', s_name = None,
                 s_selected_app = None\<rparr>)
   \<and> password_input ''secret'' 7
        \<lparr>s_chat_id = Some 7, s_email = Some ''a@b.com'', s_name = None, s_selected_app = None\<rparr>
        [\<lparr>u_email = ''a@b.com'', u_password = ''secret'', u_name = ''A'', u_chat_id = None,
          u_created_at = ''t0''\<rparr>] =
       Inr (MAIN_MENU,
            \<lparr>s_chat_id = Some 7, s_email = Some ''a@b.com'', s_name = Some ''A'',
             s_selected_app = None\<rparr>,
            [\<lparr>u_email = ''a@b.com'', u_password = ''secret'', u_name = ''A'',
              u_chat_id = Some 7, u_created_at = ''t0''\<rparr>])
   \<and> password_input ''secret'' 9
        \<lparr>s_chat_id = Some 7, s_email = Some ''a@b.com'', s_name = None, s_selected_app = None\<rparr>
        [\<lparr>u_email = ''a@b.com'', u_password = ''secret'', u_name = ''A'', u_chat_id = Some 7,
          u_created_at = ''t0''\<rparr>] =
       Inr (MAIN_MENU,
            \<lparr>s_chat_id = Some 7, s_email = Some ''a@b.com'', s_name = Some ''A'',
             s_selected_app = None\<rparr>,
            [\<lparr>u_email = ''a@b.com'', u_password = ''secret'', u_name = ''A'',
              u_chat_id = Some 7, u_created_at = ''t0''\<rparr>])"
proof -
  let ?s0 = "\<lparr>s_chat_id = Some 7, s_email = None, s_name = None, s_selected_app = None\<rparr>"
  let ?s1 = "\<lparr>s_chat_id = Some 7, s_email = Some ''a@b.com'', s_name = None,
              s_selected_app = None\<rparr>"
  let ?u = "\<lparr>u_email = ''a@b.com'', u_password = ''secret'', u_name = ''A'', u_chat_id = None,
             u_created_at = ''t0''\<rparr>"
  let ?v = "\<lparr>u_email = ''a@b.com'', u_password = ''secret'', u_name = ''A'', u_chat_id = Some 7,
             u_created_at = ''t0''\<rparr>"
  have l: "lower ''A@B.com'' = ''a@b.com''" "lower ''a@b.com'' = ''a@b.com''"
    by code_simp+
  have st: "strip ''A@B.com'' = ''A@B.com''" "strip ''secret'' = ''secret''"
    by (simp_all add: strip_def isspace_def)
  have m: "match_anchored email_pattern ''a@b.com''"
    by (simp add: match_anchored_def email_pattern_def at_least_one_def local_class_def
        domain_class_def ascii_alpha_def ascii_digit_def)
  have acc: "email_input ''A@B.com'' ?s0 = (PASSWORD, ?s1)"
    by (simp add: email_input_def st l m)
  have du: "distinct (map u_email [?u])" and dv: "distinct (map u_email [?v])"
    by simp_all
  have lu: "\<forall>u\<in>set [?u]. lower (u_email u) = u_email u"
    and lv: "\<forall>u\<in>set [?v]. lower (u_email u) = u_email u"
    by (simp_all add: l)
  from login [OF du lu acc, of "''secret''" 7]
  have "\<forall>pre u post. [?u] = pre @ u # post \<and> lower (u_email u) = lower (strip ''A@B.com'')
           \<and> u_password u = strip ''secret'' \<longrightarrow>
             password_input ''secret'' 7 ?s1 [?u] =
               Inr (MAIN_MENU, ?s1\<lparr>s_name := Some (u_name u)\<rparr>,
                    if truthy_int (u_chat_id u) then [?u]
                    else pre @ u\<lparr>u_chat_id := Some 7\<rparr> # post)"
    by blast
  from this [rule_format, of "[]" ?u "[]"]
  have first: "password_input ''secret'' 7 ?s1 [?u] =
      Inr (MAIN_MENU, ?s1\<lparr>s_name := Some ''A''\<rparr>, [?u\<lparr>u_chat_id := Some 7\<rparr>])"
    by (simp add: st l truthy_int_def)
  from login [OF dv lv acc, of "''secret''" 9]
  have "\<forall>pre u post. [?v] = pre @ u # post \<and> lower (u_email u) = lower (strip ''A@B.com'')
           \<and> u_password u = strip ''secret'' \<longrightarrow>
             password_input ''secret'' 9 ?s1 [?v] =
               Inr (MAIN_MENU, ?s1\<lparr>s_name := Some (u_name u)\<rparr>,
                    if truthy_int (u_chat_id u) then [?v]
                    else pre @ u\<lparr>u_chat_id := Some 9\<rparr> # post)"
    by blast
  from this [rule_format, of "[]" ?v "[]"]
  have second: "password_input ''secret'' 9 ?s1 [?v] =
      Inr (MAIN_MENU, ?s1\<lparr>s_name := Some ''A''\<rparr>, [?v])"
    by (simp add: st l truthy_int_def)
  show ?thesis
    using acc first second by simp
qed

theorem padded_password_counterexample:
  "password_input '' secret'' 7
     \<lparr>s_chat_id = Some 7, s_email = Some ''a@b.com'', s_name = None, s_selected_app = None\<rparr>
     [\<lparr>u_email = ''a@b.com'', u_password = ''secret'', u_name = ''A'', u_chat_id = None,
       u_created_at = ''t0''\<rparr>] =
     Inr (MAIN_MENU,
          \<lparr>s_chat_id = Some 7, s_email = Some ''a@b.com'', s_name = Some ''A'',
           s_selected_app = None\<rparr>,
          [\<lparr>u_email = ''a@b.com'', u_password = ''secret'', u_name = ''A'',
            u_chat_id = Some 7, u_created_at = ''t0''\<rparr>])
   \<and> '' secret'' \<noteq> ''secret''"
  by (simp add: password_input_def read_emails_def strip_def isspace_def truthy_int_def)

section \<open>A caption that is not a mobile number\<close>

text \<open>
  Claim C7, as amended. In the proof step (an app is selected), when the caption is
  absent or empty, or when the caption with surrounding whitespace stripped is not
  exactly 10 digits (a 9-digit caption, say), the handler answers before any ledger
  operation: no duplicate check, no record written, the store as it was, and the
  session stays in the proof step. The test is made on the stripped caption, so a
  10-digit caption padded with whitespace is accepted and goes on to the ledger.
\<close>

theorem bad_caption_rejected:
  "s_selected_app sess = Some app \<Longrightarrow> app \<noteq> [] \<Longrightarrow>
   m_caption msg = None \<or> (\<exists>c. m_caption msg = Some c \<and> \<not> fullmatch mobile_pattern (strip c)) \<Longrightarrow>
     r_state (process_activation_proof msg sess ev sent ts sd store) = ACTIVATION_PROOF
     \<and> r_store (process_activation_proof msg sess ev sent ts sd store) = store
     \<and> r_ledger (process_activation_proof msg sess ev sent ts sd store) = []
     \<and> r_reply (process_activation_proof msg sess ev sent ts sd store) \<in>
         {NeedScreenshotOrVideo, NeedVideo, MissingCaption, InvalidMobile}"
proof -
  assume app: "s_selected_app sess = Some app" "app \<noteq> []"
    and cap: "m_caption msg = None \<or> (\<exists>c. m_caption msg = Some c \<and> \<not> fullmatch mobile_pattern (strip c))"
  have res: "\<exists>reply\<in>{NeedScreenshotOrVideo, NeedVideo, MissingCaption, InvalidMobile}.
      process_activation_proof msg sess ev sent ts sd store =
        rejected ACTIVATION_PROOF store reply []"
  proof (cases "proof_media app msg")
    case (Inl reply)
    then have "reply \<in> {NeedScreenshotOrVideo, NeedVideo}"
      by (auto simp: proof_media_def split: if_splits option.splits)
    moreover have "process_activation_proof msg sess ev sent ts sd store =
        rejected ACTIVATION_PROOF store reply []"
      using app Inl by (simp add: process_activation_proof_def)
    ultimately show ?thesis by blast
  next
    case (Inr media)
    obtain f k where fk: "media = (f, k)"
      by (cases media)
    show ?thesis
    proof (cases "truthy_str (m_caption msg)")
      case False
      then have "process_activation_proof msg sess ev sent ts sd store =
          rejected ACTIVATION_PROOF store MissingCaption []"
        using app Inr fk by (simp add: process_activation_proof_def)
      then show ?thesis by blast
    next
      case True
      then obtain c where c: "m_caption msg = Some c"
        by (auto simp: truthy_str_def split: option.splits)
      with cap have "\<not> fullmatch mobile_pattern (strip c)"
        by simp
      then have "process_activation_proof msg sess ev sent ts sd store =
          rejected ACTIVATION_PROOF store InvalidMobile []"
        using app Inr fk True c by (simp add: process_activation_proof_def)
      then show ?thesis by blast
    qed
  qed
  then obtain reply where
    r: "reply \<in> {NeedScreenshotOrVideo, NeedVideo, MissingCaption, InvalidMobile}"
      "process_activation_proof msg sess ev sent ts sd store =
         rejected ACTIVATION_PROOF store reply []"
    by blast
  show ?thesis
    using r(1) by (simp add: r(2) rejected_def)
qed

theorem bad_caption_rejected_witness:
  "r_state (process_activation_proof
      \<lparr>m_photo = [], m_video = Some ''v1'', m_caption = Some ''987654321''\<rparr>
      \<lparr>s_chat_id = Some 7, s_email = Some ''a@b.com'', s_name = Some ''A'',
       s_selected_app = Some ''upstox''\<rparr>
      \<lparr>e_channel_id = Some ''-100'', e_admin_id = Some ''1''\<rparr> (Some 55) ''t1'' ''d1'' []) =
     ACTIVATION_PROOF
   \<and> r_store (process_activation_proof
      \<lparr>m_photo = [], m_video = Some ''v1'', m_caption = Some ''987654321''\<rparr>
      \<lparr>s_chat_id = Some 7, s_email = Some ''a@b.com'', s_name = Some ''A'',
       s_selected_app = Some ''upstox''\<rparr>
      \<lparr>e_channel_id = Some ''-100'', e_admin_id = Some ''1''\<rparr> (Some 55) ''t1'' ''d1'' []) = []
   \<and> r_ledger (process_activation_proof
      \<lparr>m_photo = [], m_video = Some ''v1'', m_caption = Some ''987654321''\<rparr>
      \<lparr>s_chat_id = Some 7, s_email = Some ''a@b.com'', s_name = Some ''A'',
       s_selected_app = Some ''upstox''\<rparr>
      \<lparr>e_channel_id = Some ''-100'', e_admin_id = Some ''1''\<rparr> (Some 55) ''t1'' ''d1'' []) = []"
  using bad_caption_rejected [of
      "\<lparr>s_chat_id = Some 7, s_email = Some ''a@b.com'', s_name = Some ''A'',
        s_selected_app = Some ''upstox''\<rparr>"
      "''upstox''"
      "\<lparr>m_photo = [], m_video = Some ''v1'', m_caption = Some ''987654321''\<rparr>"
      "\<lparr>e_channel_id = Some ''-100'', e_admin_id = Some ''1''\<rparr>" "Some 55" "''t1''" "''d1''" "[]"]
  by (simp add: fullmatch_mobile strip_def isspace_def)

theorem padded_caption_counterexample:
  "\<not> fullmatch mobile_pattern '' 9876543210''
   \<and> r_state (process_activation_proof
      \<lparr>m_photo = [], m_video = Some ''v1'', m_caption = Some '' 9876543210''\<rparr>
      \<lparr>s_chat_id = Some 7, s_email = Some ''a@b.com'', s_name = Some ''A'',
       s_selected_app = Some ''upstox''\<rparr>
      \<lparr>e_channel_id = None, e_admin_id = None\<rparr> None ''t1'' ''d1'' []) = MAIN_MENU
   \<and> r_ledger (process_activation_proof
      \<lparr>m_photo = [], m_video = Some ''v1'', m_caption = Some '' 9876543210''\<rparr>
      \<lparr>s_chat_id = Some 7, s_email = Some ''a@b.com'', s_name = Some ''A'',
       s_selected_app = Some ''upstox''\<rparr>
      \<lparr>e_channel_id = None, e_admin_id = None\<rparr> None ''t1'' ''d1'' []) =
     [IsDuplicate ''upstox'' ''9876543210'', WriteActivation ''a@b.com'' ''upstox'' ''9876543210'']
   \<and> r_store (process_activation_proof
      \<lparr>m_photo = [], m_video = Some ''v1'', m_caption = Some '' 9876543210''\<rparr>
      \<lparr>s_chat_id = Some 7, s_email = Some ''a@b.com'', s_name = Some ''A'',
       s_selected_app = Some ''upstox''\<rparr>
      \<lparr>e_channel_id = None, e_admin_id = None\<rparr> None ''t1'' ''d1'' []) =
     [\<lparr>a_email = ''a@b.com'', a_mobile = ''9876543210'', a_app = ''upstox'',
       a_status = ''pending'', a_reason = ''pending'', a_timestamp = ''t1'',
       a_submission_date = ''d1'', a_message_id = None\<rparr>]"
proof -
  have st: "strip '' 9876543210'' = ''9876543210''"
    by (simp add: strip_def isspace_def)
  have ok: "fullmatch mobile_pattern ''9876543210''"
    by (simp add: fullmatch_mobile ascii_digit_def)
  have nd: "\<not> is_duplicate [] ''upstox'' ''9876543210''"
    by (simp add: is_duplicate_def)
  have bad: "\<not> fullmatch mobile_pattern '' 9876543210''"
    by (simp add: fullmatch_mobile)
  show ?thesis
    using bad
    by (simp add: process_activation_proof_def proof_media_def SCREENSHOT_APPS_def truthy_str_def
        st ok nd write_activation_def remove_spaces_def Let_def)
qed

end
